theory Spec2Isabelle
  imports Main "HOL-Library.Sublist" "HOL-Library.Word" "HOL-Library.Char_ord"
    "HOL-Library.List_Lexorder"
begin

section \<open>JavaScript strings and values\<close>

text \<open>
  Strings are \<^typ>\<open>string\<close> (lists of 8-bit characters): the model covers codenames,
  names and messages written in ASCII. \<open>undefined\<close> and \<open>null\<close> are \<^const>\<open>None\<close>.
\<close>

definition toLowerCase_char :: "char \<Rightarrow> char" where
  "toLowerCase_char c =
     (if (65::nat) \<le> of_char c \<and> of_char c \<le> (90::nat)
      then char_of (of_char c + (32::nat)) else c)"

definition toLowerCase :: "string \<Rightarrow> string" where
  \<comment> \<open>\<open>String.prototype.toLowerCase\<close>, on ASCII letters.\<close>
  "toLowerCase s = map toLowerCase_char s"

fun join :: "string \<Rightarrow> string list \<Rightarrow> string" where
  \<comment> \<open>\<open>Array.prototype.join\<close> on an array of strings.\<close>
  "join sep [] = []"
| "join sep [x] = x"
| "join sep (x # y # ys) = x @ sep @ join sep (y # ys)"

fun number_toString :: "nat \<Rightarrow> string" where
  \<comment> \<open>how a template literal prints a non-negative integer such as \<open>array.length\<close>\<close>
  "number_toString n =
     (if n < 10 then [char_of (48 + n)]
      else number_toString (n div 10) @ [char_of (48 + n mod 10)])"

declare number_toString.simps [simp del]

definition replaceAll_char :: "char \<Rightarrow> char \<Rightarrow> string \<Rightarrow> string" where
  \<comment> \<open>\<open>s.replaceAll(a, b)\<close> for one-character strings \<open>a\<close> and \<open>b\<close>\<close>
  "replaceAll_char a b s = map (\<lambda>c. if c = a then b else c) s"

definition ansi :: "string \<Rightarrow> string \<Rightarrow> string" where
  \<comment> \<open>The colour libraries (chalk, colors) are not part of the repository. With colours
      enabled they put the text between an opening escape sequence and the closing
      sequence of the foreground colour.\<close>
  "ansi code s = CHR 0x1B # ''['' @ code @ ''m'' @ s @ CHR 0x1B # ''[39m''"

definition chalk_red :: "string \<Rightarrow> string" where
  "chalk_red s = ansi ''31'' s"

definition chalk_cyan :: "string \<Rightarrow> string" where
  "chalk_cyan s = ansi ''36'' s"

definition chalk_yellow :: "string \<Rightarrow> string" where
  "chalk_yellow s = ansi ''33'' s"

definition colors_red :: "string \<Rightarrow> string" where
  "colors_red s = ansi ''31'' s"

definition colors_cyan :: "string \<Rightarrow> string" where
  "colors_cyan s = ansi ''36'' s"

datatype migration_value = StringValue string | ArrayValue "string list"
  \<comment> \<open>the portable element value \<open>string | string[]\<close>; \<open>undefined\<close> is \<^const>\<open>None\<close>\<close>

fun toString :: "migration_value \<Rightarrow> string" where
  "toString (StringValue s) = s"
| "toString (ArrayValue xs) = join '','' xs"

definition optional_toString :: "migration_value option \<Rightarrow> string option" where
  \<comment> \<open>\<open>value?.toString()\<close>\<close>
  "optional_toString v = map_option toString v"

definition nullish :: "'a option \<Rightarrow> 'a option \<Rightarrow> 'a option" where
  \<comment> \<open>\<open>a ?? b\<close>: \<open>b\<close> only when \<open>a\<close> is \<open>null\<close> or \<open>undefined\<close>\<close>
  "nullish a b = (case a of None \<Rightarrow> b | Some x \<Rightarrow> Some x)"


section \<open>Element translation helper (import transforms)\<close>

record element_contract =
  element_codename :: string
  element_value :: "string option"

text \<open>
  \<open>elementsBuilder.textElement\<close> and \<open>elementsBuilder.customElement\<close> belong to the
  management SDK; they hand back the element contract they are given.
\<close>

definition importTransforms_text :: "string \<Rightarrow> migration_value option \<Rightarrow> element_contract" where
  "importTransforms_text elementCodename v =
     \<lparr> element_codename = elementCodename,
       element_value = nullish (optional_toString v) None \<rparr>"

definition importTransforms_custom :: "string \<Rightarrow> migration_value option \<Rightarrow> element_contract" where
  "importTransforms_custom elementCodename v =
     \<lparr> element_codename = elementCodename,
       element_value = nullish (optional_toString v) (Some '''') \<rparr>"

type_synonym ('p, 'a) library_call = "'p \<Rightarrow> 'a \<times> 'p"

definition convertComponentCodenameToId ::
  "(string \<Rightarrow> ('p, bool) library_call) \<Rightarrow> (string \<Rightarrow> ('p, string) library_call)
     \<Rightarrow> string \<Rightarrow> ('p, string) library_call" where
  \<comment> \<open>\<open>validate\<close> (package uuid) and \<open>uuidByString\<close> (package uuid-by-string) are
      third-party functions and parameters here. A call into a package runs in the state
      \<open>'p\<close> of the process (clock, random source, module state) and returns its value
      with the state it leaves, so nothing about what the packages read or change is
      built into the method.\<close>
  "convertComponentCodenameToId validate uuidByString codename p =
     (let uuidCandidate = replaceAll_char CHR ''_'' CHR ''-'' codename in
      case validate uuidCandidate p of
        (valid, p') \<Rightarrow>
          if \<not> valid then uuidByString codename p' else (uuidCandidate, p'))"


section \<open>Errors, asynchronous tasks and the management client\<close>

datatype js_error =
    Error string
    \<comment> \<open>\<open>Error(message)\<close>\<close>
  | ContentManagementBaseKontentError string nat
    \<comment> \<open>the SDK's error for a response of the content management API: message and
        HTTP status of the response\<close>
  | ProcessExit string
    \<comment> \<open>\<open>logErrorAndExit\<close>: the message is logged and the process ends; no
        \<open>catch\<close> sees it\<close>

definition is404Error :: "js_error \<Rightarrow> bool" where
  \<comment> \<open>Modelled from the spec: \<open>is404Error\<close> is imported from the core module, which is
      not among the source files. The spec calls the class "Recoverable-missing
      (404-class): absent content item/asset on lookup".\<close>
  "is404Error error =
     (case error of ContentManagementBaseKontentError _ status \<Rightarrow> status = 404 | _ \<Rightarrow> False)"

definition quoted :: "string \<Rightarrow> string" where
  \<comment> \<open>a template fragment \<open>'${s}'\<close>\<close>
  "quoted s = CHR 0x27 # s @ [CHR 0x27]"

record content_item =
  item_id :: string
  item_name :: string
  item_codename :: string
  item_type_id :: string
  item_collection_id :: string

record add_content_item_data =
  add_name :: string
  add_type_codename :: string
  add_codename :: string
  add_collection_codename :: string

record upsert_content_item_data =
  upsert_name :: string
  upsert_collection_codename :: string

record change_workflow_data =
  step_identifier_codename :: string
  workflow_identifier_codename :: string

datatype mapi_call =
    ViewContentItem string
  | AddContentItem add_content_item_data
  | UpsertContentItem string upsert_content_item_data
  | PublishLanguageVariant string string
  | UnpublishLanguageVariant string string
  | ChangeWorkflowOfLanguageVariant string string change_workflow_data

text \<open>
  The management client talks to the target environment. Its state is a value of type
  \<open>'b\<close>; every operation takes the state and returns the response or the error
  together with the new state.
\<close>

record 'b management_client =
  viewContentItem :: "string \<Rightarrow> 'b \<Rightarrow> (js_error + content_item) \<times> 'b"
  addContentItem :: "add_content_item_data \<Rightarrow> 'b \<Rightarrow> (js_error + content_item) \<times> 'b"
  upsertContentItem ::
    "string \<Rightarrow> upsert_content_item_data \<Rightarrow> 'b \<Rightarrow> (js_error + content_item) \<times> 'b"
  publishLanguageVariant :: "string \<Rightarrow> string \<Rightarrow> 'b \<Rightarrow> (js_error + unit) \<times> 'b"
  unpublishLanguageVariant :: "string \<Rightarrow> string \<Rightarrow> 'b \<Rightarrow> (js_error + unit) \<times> 'b"
  changeWorkflowOfLanguageVariant ::
    "string \<Rightarrow> string \<Rightarrow> change_workflow_data \<Rightarrow> 'b \<Rightarrow> (js_error + unit) \<times> 'b"

record parsed_content_item =
  system_codename :: string
  system_name :: string
  system_language :: string
  system_type :: string
  system_collection :: string

text \<open>
  What a run can change: the target environment, the requests sent to it (oldest
  first), the log, and the \<open>importedData.contentItems\<close> array shared by the import
  helpers.
\<close>

record 'b world =
  backend :: 'b
  calls :: "mapi_call list"
  logs :: "(string \<times> string) list"
  importedData_contentItems :: "(parsed_content_item \<times> content_item) list"

type_synonym ('b, 'a) task = "'b world \<Rightarrow> (js_error + 'a) \<times> 'b world"

definition return_task :: "'a \<Rightarrow> ('b, 'a) task" where
  "return_task x w = (Inr x, w)"

definition throw_task :: "js_error \<Rightarrow> ('b, 'a) task" where
  "throw_task e w = (Inl e, w)"

definition bind_task :: "('b, 'a) task \<Rightarrow> ('a \<Rightarrow> ('b, 'c) task) \<Rightarrow> ('b, 'c) task" where
  \<comment> \<open>\<open>const x = await m; ...\<close>: an error of \<open>m\<close> ends the sequence\<close>
  "bind_task m f w = (case m w of (Inl e, w') \<Rightarrow> (Inl e, w') | (Inr x, w') \<Rightarrow> f x w')"

definition try_catch :: "('b, 'a) task \<Rightarrow> (js_error \<Rightarrow> ('b, 'a) task) \<Rightarrow> ('b, 'a) task" where
  \<comment> \<open>\<open>try { m } catch (error) { handler }\<close>\<close>
  "try_catch m handler w =
     (case m w of
        (Inl (ProcessExit msg), w') \<Rightarrow> (Inl (ProcessExit msg), w')
      | (Inl e, w') \<Rightarrow> handler e w'
      | (Inr x, w') \<Rightarrow> (Inr x, w'))"

definition request :: "mapi_call \<Rightarrow> ('b \<Rightarrow> (js_error + 'a) \<times> 'b) \<Rightarrow> ('b, 'a) task" where
  \<comment> \<open>one request of the management client, \<open>....toPromise()\<close>\<close>
  "request c operation w =
     (case operation (backend w) of
        (r, b') \<Rightarrow> (r, w\<lparr> backend := b', calls := calls w @ [c] \<rparr>))"

definition log_event :: "string \<Rightarrow> string \<Rightarrow> ('b, unit) task" where
  \<comment> \<open>the logger collaborator: an event \<open>{type, message}\<close> is recorded\<close>
  "log_event type message w = (Inr (), w\<lparr> logs := logs w @ [(type, message)] \<rparr>)"

definition runMapiRequestAsync :: "('b, 'a) task \<Rightarrow> string \<Rightarrow> string \<Rightarrow> ('b, 'a) task" where
  \<comment> \<open>Modelled from the spec: \<open>runMapiRequestAsync\<close> is imported from the core module,
      which is not among the source files. The logger "receives discrete events for
      per-action notifications" and the core "only supplies the call and interprets
      success/404/domain-error outcomes"; retries belong to the transport. So the
      action is reported and the request's outcome is the outcome of the call.\<close>
  "runMapiRequestAsync func action itemName =
     bind_task (log_event action itemName) (\<lambda>_. func)"


section \<open>Import workflow service\<close>

record workflow_step =
  step_id :: string
  step_codename :: string

record workflow =
  workflow_id :: string
  workflow_codename :: string
  workflow_steps :: "workflow_step list"
  publishedStep :: workflow_step
  archivedStep :: workflow_step
  scheduledStep :: workflow_step

record workflow_and_step =
  was_workflow :: workflow
  was_step :: workflow_step

record migration_item =
  migration_codename :: string
  migration_name :: string
  migration_language :: string

definition workflow_not_found_message :: "(string \<Rightarrow> string) \<Rightarrow> (string \<Rightarrow> string) \<Rightarrow> string \<Rightarrow> workflow list \<Rightarrow> string" where
  \<comment> \<open>the \<open>errorMessages.join('. ')\<close> of both \<open>getWorkflowAndStep\<close> (colours of chalk)
      and \<open>getWorkflowByCodename\<close> (colours of colors)\<close>
  "workflow_not_found_message red cyan workflowCodename workflows =
     join ''. ''
       [ ''Workflow with codename '' @ quoted (red workflowCodename)
           @ '' does not exist in target project'',
         ''Available workflows are ('' @ number_toString (length workflows) @ ''): ''
           @ join '', '' (map (\<lambda>m. cyan (workflow_codename m)) workflows) ]"

definition getWorkflowStep :: "workflow \<Rightarrow> string \<Rightarrow> workflow_step option" where
  "getWorkflowStep workflow stepCodename =
     (if step_codename (archivedStep workflow) = stepCodename then
        Some \<lparr> step_id = step_id (archivedStep workflow),
               step_codename = step_codename (archivedStep workflow) \<rparr>
      else if step_codename (publishedStep workflow) = stepCodename then
        Some \<lparr> step_id = step_id (publishedStep workflow),
               step_codename = step_codename (publishedStep workflow) \<rparr>
      else if step_codename (scheduledStep workflow) = stepCodename then
        Some \<lparr> step_id = step_id (scheduledStep workflow),
               step_codename = step_codename (scheduledStep workflow) \<rparr>
      else
        (case find (\<lambda>m. step_codename m = stepCodename) (workflow_steps workflow) of
           Some step \<Rightarrow> Some \<lparr> step_id = step_id step, step_codename = step_codename step \<rparr>
         | None \<Rightarrow> None))"

definition getWorkflowAndStep :: "string \<Rightarrow> string \<Rightarrow> workflow list \<Rightarrow> js_error + workflow_and_step" where
  "getWorkflowAndStep workflowStepCodename workflowCodename workflows =
     (case find (\<lambda>m. toLowerCase (workflow_codename m) = toLowerCase workflowCodename) workflows of
        None \<Rightarrow>
          Inl (Error (workflow_not_found_message chalk_red chalk_cyan workflowCodename workflows))
      | Some workflow \<Rightarrow>
          (case getWorkflowStep workflow workflowStepCodename of
             None \<Rightarrow>
               Inl (Error (''Workflow step with codename '' @ quoted (chalk_red workflowStepCodename)
                     @ '' does not exist within worklflow ''
                     @ quoted (chalk_cyan (workflow_codename workflow))))
           | Some workflowStep \<Rightarrow>
               Inr \<lparr> was_workflow = workflow, was_step = workflowStep \<rparr>))"

definition getWorkflowByCodename :: "string \<Rightarrow> workflow list \<Rightarrow> js_error + workflow" where
  \<comment> \<open>\<open>ImportWorkflowHelper.getWorkflowByCodename\<close>\<close>
  "getWorkflowByCodename workflowCodename workflows =
     (case find (\<lambda>m. toLowerCase (workflow_codename m) = toLowerCase workflowCodename) workflows of
        None \<Rightarrow>
          Inl (Error (workflow_not_found_message colors_red colors_cyan workflowCodename workflows))
      | Some workflow \<Rightarrow> Inr workflow)"

fun doesWorkflowStepCodenameRepresentPublishedStep :: "string \<Rightarrow> workflow list \<Rightarrow> bool" where
  "doesWorkflowStepCodenameRepresentPublishedStep stepCodename [] = False"
| "doesWorkflowStepCodenameRepresentPublishedStep stepCodename (workflow # workflows) =
     (if step_codename (publishedStep workflow) = stepCodename then True
      else doesWorkflowStepCodenameRepresentPublishedStep stepCodename workflows)"

fun doesWorkflowStepCodenameRepresentArchivedStep :: "string \<Rightarrow> workflow list \<Rightarrow> bool" where
  "doesWorkflowStepCodenameRepresentArchivedStep workflowStepCodename [] = False"
| "doesWorkflowStepCodenameRepresentArchivedStep workflowStepCodename (workflow # workflows) =
     (if step_codename (archivedStep workflow) = workflowStepCodename then True
      else doesWorkflowStepCodenameRepresentArchivedStep workflowStepCodename workflows)"

fun doesWorkflowStepCodenameRepresentScheduledStep :: "string \<Rightarrow> workflow list \<Rightarrow> bool" where
  "doesWorkflowStepCodenameRepresentScheduledStep stepCodename [] = False"
| "doesWorkflowStepCodenameRepresentScheduledStep stepCodename (workflow # workflows) =
     (if step_codename (scheduledStep workflow) = stepCodename then True
      else doesWorkflowStepCodenameRepresentScheduledStep stepCodename workflows)"

definition variant_title :: "migration_item \<Rightarrow> string" where
  \<comment> \<open>\<open>`${migrationItem.system.codename} (${migrationItem.system.language})`\<close>\<close>
  "variant_title migrationItem =
     migration_codename migrationItem @ '' ('' @ migration_language migrationItem @ '')''"

definition setWorkflowOfLanguageVariantAsync ::
  "'b management_client \<Rightarrow> string \<Rightarrow> string \<Rightarrow> migration_item \<Rightarrow> workflow list \<Rightarrow> ('b, unit) task" where
  "setWorkflowOfLanguageVariantAsync managementClient workflowCodename workflowStepCodename
       migrationItem workflows =
     (case getWorkflowAndStep workflowStepCodename workflowCodename workflows of
        Inl error \<Rightarrow> throw_task error
      | Inr ws \<Rightarrow>
          if doesWorkflowStepCodenameRepresentPublishedStep workflowStepCodename workflows then
            runMapiRequestAsync
              (request
                 (PublishLanguageVariant (migration_codename migrationItem)
                    (migration_language migrationItem))
                 (publishLanguageVariant managementClient (migration_codename migrationItem)
                    (migration_language migrationItem)))
              ''publish'' (variant_title migrationItem)
          else if doesWorkflowStepCodenameRepresentScheduledStep workflowStepCodename workflows then
            log_event ''skip''
              (''Skipping scheduled workflow step for item ''
                 @ quoted (chalk_yellow (migration_name migrationItem)))
          else if doesWorkflowStepCodenameRepresentArchivedStep workflowStepCodename workflows then
            bind_task
              (try_catch
                 (runMapiRequestAsync
                    (request
                       (UnpublishLanguageVariant (migration_codename migrationItem)
                          (migration_language migrationItem))
                       (unpublishLanguageVariant managementClient
                          (migration_codename migrationItem) (migration_language migrationItem)))
                    ''unpublish'' (variant_title migrationItem))
                 (\<lambda>error.
                    case error of
                      ContentManagementBaseKontentError message status \<Rightarrow>
                        log_event ''unpublish''
                          (''Unpublish failed, but this may be expected behavior as we cannot determine if there is a published version already. Error received: ''
                             @ message)
                    | _ \<Rightarrow> throw_task error))
              (\<lambda>_.
                 runMapiRequestAsync
                   (request
                      (ChangeWorkflowOfLanguageVariant (migration_codename migrationItem)
                         (migration_language migrationItem)
                         \<lparr> step_identifier_codename = step_codename (archivedStep (was_workflow ws)),
                           workflow_identifier_codename = workflow_codename (was_workflow ws) \<rparr>)
                      (changeWorkflowOfLanguageVariant managementClient
                         (migration_codename migrationItem) (migration_language migrationItem)
                         \<lparr> step_identifier_codename = step_codename (archivedStep (was_workflow ws)),
                           workflow_identifier_codename = workflow_codename (was_workflow ws) \<rparr>))
                   ''archive''
                   (variant_title migrationItem @ '' -> ''
                      @ step_codename (archivedStep (was_workflow ws))))
          else if workflow_codename (was_workflow ws) = workflowStepCodename then
            \<comment> \<open>source comment: item is already in the target workflow step\<close>
            return_task ()
          else
            runMapiRequestAsync
              (request
                 (ChangeWorkflowOfLanguageVariant (migration_codename migrationItem)
                    (migration_language migrationItem)
                    \<lparr> step_identifier_codename = step_codename (was_step ws),
                      workflow_identifier_codename = workflow_codename (was_workflow ws) \<rparr>)
                 (changeWorkflowOfLanguageVariant managementClient
                    (migration_codename migrationItem) (migration_language migrationItem)
                    \<lparr> step_identifier_codename = step_codename (was_step ws),
                      workflow_identifier_codename = workflow_codename (was_workflow ws) \<rparr>))
              ''changeWorkflowStep''
              (variant_title migrationItem @ '' -> '' @ step_codename (was_step ws)))"


section \<open>Import content item helper\<close>

record collection =
  collection_id :: string
  collection_codename :: string

datatype prepare_status = Created | ItemAlreadyExists

record categorized_parsed_items =
  componentItems :: "parsed_content_item list"
  regularItems :: "parsed_content_item list"

text \<open>
  \<open>logAction\<close>, \<open>logDebug\<close>, \<open>logProcessingDebug\<close> and \<open>extractErrorMessage\<close> come from the
  core module, which is not among the source files. The log functions are modelled as
  events of the logger, with the action or type and the title or message they are
  given; they never fail.
\<close>

definition extractErrorMessage :: "js_error \<Rightarrow> string" where
  "extractErrorMessage error =
     (case error of
        Error message \<Rightarrow> message
      | ContentManagementBaseKontentError message status \<Rightarrow> message
      | ProcessExit message \<Rightarrow> message)"

definition push_importedData ::
  "parsed_content_item \<Rightarrow> content_item \<Rightarrow> ('b, unit) task" where
  \<comment> \<open>\<open>importedData.contentItems.push({ original, imported })\<close>\<close>
  "push_importedData original imported w =
     (Inr (), w\<lparr> importedData_contentItems :=
                   importedData_contentItems w @ [(original, imported)] \<rparr>)"

definition prepareContentItemAsync ::
  "'b management_client \<Rightarrow> parsed_content_item \<Rightarrow> ('b, content_item \<times> prepare_status) task" where
  "prepareContentItemAsync managementClient parsedContentItem =
     try_catch
       (bind_task
          (request (ViewContentItem (system_codename parsedContentItem))
             (viewContentItem managementClient (system_codename parsedContentItem)))
          (\<lambda>contentItem.
             bind_task
               (log_event ''fetch'' (''Loading item '' @ quoted (item_name contentItem)))
               (\<lambda>_.
                  bind_task (push_importedData parsedContentItem contentItem)
                    (\<lambda>_. return_task (contentItem, ItemAlreadyExists)))))
       (\<lambda>error.
          if is404Error error then
            bind_task
              (request
                 (AddContentItem
                    \<lparr> add_name = system_name parsedContentItem,
                      add_type_codename = system_type parsedContentItem,
                      add_codename = system_codename parsedContentItem,
                      add_collection_codename = system_collection parsedContentItem \<rparr>)
                 (addContentItem managementClient
                    \<lparr> add_name = system_name parsedContentItem,
                      add_type_codename = system_type parsedContentItem,
                      add_codename = system_codename parsedContentItem,
                      add_collection_codename = system_collection parsedContentItem \<rparr>))
              (\<lambda>contentItem.
                 bind_task (push_importedData parsedContentItem contentItem)
                   (\<lambda>_.
                      bind_task
                        (log_event ''create'' (''Creating item '' @ quoted (item_name contentItem)))
                        (\<lambda>_. return_task (contentItem, Created))))
          else throw_task error)"

definition shouldUpdateContentItem ::
  "parsed_content_item \<Rightarrow> content_item \<Rightarrow> collection list \<Rightarrow> js_error + bool" where
  "shouldUpdateContentItem parsedContentItem contentItem collections =
     (case find (\<lambda>m. collection_codename m = system_collection parsedContentItem) collections of
        None \<Rightarrow>
          Inl (ProcessExit (''Invalid collection '' @ quoted (system_collection parsedContentItem)))
      | Some collection \<Rightarrow>
          Inr (system_name parsedContentItem \<noteq> item_name contentItem
               \<or> system_collection parsedContentItem \<noteq> collection_codename collection))"

definition importContentItemAsync ::
  "'b management_client \<Rightarrow> collection list \<Rightarrow> parsed_content_item \<Rightarrow> content_item list
     \<Rightarrow> ('b, content_item list) task" where
  \<comment> \<open>\<open>data.preparedItems\<close> is the caller's array; the task returns it with the pushed
      item\<close>
  "importContentItemAsync managementClient collections importContentItem preparedItems =
     bind_task (prepareContentItemAsync managementClient importContentItem)
       (\<lambda>preparedContentItemResult.
          let contentItem = fst preparedContentItemResult;
              preparedItems = preparedItems @ [contentItem]
          in
            if snd preparedContentItemResult = ItemAlreadyExists then
              (case shouldUpdateContentItem importContentItem contentItem collections of
                 Inl error \<Rightarrow> throw_task error
               | Inr True \<Rightarrow>
                   bind_task
                     (request
                        (UpsertContentItem (system_codename importContentItem)
                           \<lparr> upsert_name = system_name importContentItem,
                             upsert_collection_codename = system_collection importContentItem \<rparr>)
                        (upsertContentItem managementClient (system_codename importContentItem)
                           \<lparr> upsert_name = system_name importContentItem,
                             upsert_collection_codename = system_collection importContentItem \<rparr>))
                     (\<lambda>upsertedContentItem.
                        bind_task
                          (log_event ''upsert''
                             (''Upserting item '' @ quoted (item_name upsertedContentItem)))
                          (\<lambda>_. return_task preparedItems))
               | Inr False \<Rightarrow>
                   bind_task
                     (log_event ''skip''
                        (''Item '' @ quoted (system_name importContentItem) @ '' already exists''))
                     (\<lambda>_. return_task preparedItems))
            else return_task preparedItems)"

fun importContentItems_loop ::
  "'b management_client \<Rightarrow> collection list \<Rightarrow> bool \<Rightarrow> nat \<Rightarrow> parsed_content_item list
     \<Rightarrow> nat \<Rightarrow> content_item list \<Rightarrow> ('b, content_item list) task" where
  \<comment> \<open>the \<open>for (const importContentItem of categorizedParsedItems.regularItems)\<close> loop;
      the source's \<open>try\<close> block is empty and stands after the awaited call\<close>
  "importContentItems_loop managementClient collections skipFailedItems totalCount []
       itemIndex preparedItems = return_task preparedItems"
| "importContentItems_loop managementClient collections skipFailedItems totalCount
       (importContentItem # remaining) itemIndex preparedItems =
     bind_task
       (log_event ''processing''
          (number_toString (itemIndex + 1) @ ''/'' @ number_toString totalCount @ '': ''
             @ quoted (system_name importContentItem) @ '' of type ''
             @ quoted (system_type importContentItem)))
       (\<lambda>_.
          bind_task
            (importContentItemAsync managementClient collections importContentItem preparedItems)
            (\<lambda>preparedItems.
               bind_task
                 (try_catch (return_task ())
                    (\<lambda>error.
                       if skipFailedItems then
                         log_event ''error''
                           (''Failed to import content item '' @ system_codename importContentItem
                              @ '' '' @ extractErrorMessage error)
                       else throw_task error))
                 (\<lambda>_.
                    importContentItems_loop managementClient collections skipFailedItems
                      totalCount remaining (itemIndex + 1) preparedItems)))"

definition importContentItemsAsync ::
  "(parsed_content_item list \<Rightarrow> categorized_parsed_items) \<Rightarrow> 'b management_client
     \<Rightarrow> parsed_content_item list \<Rightarrow> collection list \<Rightarrow> bool \<Rightarrow> ('b, content_item list) task" where
  \<comment> \<open>\<open>parsedItemsHelper.categorizeParsedItems\<close> is not among the source files; it is the
      first parameter. \<open>skipFailedItems\<close> is \<open>data.config.skipFailedItems\<close>.\<close>
  "importContentItemsAsync categorizeParsedItems managementClient parsedContentItems collections
       skipFailedItems =
     (let categorizedParsedItems = categorizeParsedItems parsedContentItems in
      bind_task
        (log_event ''skip''
           (''Skipping '' @ quoted (number_toString (length (componentItems categorizedParsedItems)))
              @ '' because they represent component items''))
        (\<lambda>_.
           importContentItems_loop managementClient collections skipFailedItems
             (length (regularItems categorizedParsedItems))
             (regularItems categorizedParsedItems) 0 []))"


section \<open>An in-memory target environment for the examples\<close>

record memory_backend =
  mb_items :: "content_item list"
  mb_steps :: "((string \<times> string) \<times> string) list"
  mb_broken :: "string list"

definition new_item :: "add_content_item_data \<Rightarrow> content_item" where
  "new_item d =
     \<lparr> item_id = ''id-of-'' @ add_codename d,
       item_name = add_name d,
       item_codename = add_codename d,
       item_type_id = ''id-of-'' @ add_type_codename d,
       item_collection_id = ''id-of-'' @ add_collection_codename d \<rparr>"

definition memory_client :: "memory_backend management_client" where
  \<comment> \<open>A stand-in for the management API: items are looked up by codename (404 when
      absent), a view of a codename listed as broken ends in a network error, the
      workflow step of each language variant is kept by item and language (latest
      first), and unpublishing a variant that is not published is a domain error.\<close>
  "memory_client =
     \<lparr> viewContentItem = (\<lambda>codename b.
         if codename \<in> set (mb_broken b) then (Inl (Error ''socket hang up''), b)
         else
           (case find (\<lambda>i. item_codename i = codename) (mb_items b) of
              None \<Rightarrow>
                (Inl (ContentManagementBaseKontentError
                        ''The requested content item was not found.'' 404), b)
            | Some i \<Rightarrow> (Inr i, b))),
       addContentItem = (\<lambda>d b. (Inr (new_item d), b\<lparr> mb_items := mb_items b @ [new_item d] \<rparr>)),
       upsertContentItem = (\<lambda>codename d b.
         (case find (\<lambda>i. item_codename i = codename) (mb_items b) of
            None \<Rightarrow>
              (Inl (ContentManagementBaseKontentError
                      ''The requested content item was not found.'' 404), b)
          | Some i \<Rightarrow>
              (Inr (i\<lparr> item_name := upsert_name d,
                        item_collection_id := ''id-of-'' @ upsert_collection_codename d \<rparr>),
               b\<lparr> mb_items :=
                    map (\<lambda>j. if item_codename j = codename
                              then j\<lparr> item_name := upsert_name d,
                                      item_collection_id :=
                                        ''id-of-'' @ upsert_collection_codename d \<rparr>
                              else j) (mb_items b) \<rparr>))),
       publishLanguageVariant = (\<lambda>item language b.
         (Inr (), b\<lparr> mb_steps := ((item, language), ''published'') # mb_steps b \<rparr>)),
       unpublishLanguageVariant = (\<lambda>item language b.
         if map_of (mb_steps b) (item, language) = Some ''published'' then
           (Inr (), b\<lparr> mb_steps := ((item, language), ''archived'') # mb_steps b \<rparr>)
         else
           (Inl (ContentManagementBaseKontentError
                   ''The language variant is not published.'' 400), b)),
       changeWorkflowOfLanguageVariant = (\<lambda>item language d b.
         (Inr (), b\<lparr> mb_steps := ((item, language), step_identifier_codename d) # mb_steps b \<rparr>)) \<rparr>"

definition new_world :: "'b \<Rightarrow> 'b world" where
  "new_world b = \<lparr> backend = b, calls = [], logs = [], importedData_contentItems = [] \<rparr>"


subsection \<open>Example data\<close>

definition about_us :: parsed_content_item where
  "about_us =
     \<lparr> system_codename = ''about_us'', system_name = ''About us'', system_language = ''en'',
       system_type = ''page'', system_collection = ''marketing'' \<rparr>"

definition contact :: parsed_content_item where
  "contact =
     \<lparr> system_codename = ''contact'', system_name = ''Contact'', system_language = ''en'',
       system_type = ''page'', system_collection = ''default'' \<rparr>"

definition about_us_in_target :: content_item where
  \<comment> \<open>the item \<open>about_us\<close> as the target environment holds it: same name, collection
      \<open>default\<close>\<close>
  "about_us_in_target =
     \<lparr> item_id = ''id-of-about_us'', item_name = ''About us'', item_codename = ''about_us'',
       item_type_id = ''id-of-page'', item_collection_id = ''id-of-default'' \<rparr>"

definition target_collections :: "collection list" where
  "target_collections =
     [ \<lparr> collection_id = ''id-of-default'', collection_codename = ''default'' \<rparr>,
       \<lparr> collection_id = ''id-of-marketing'', collection_codename = ''marketing'' \<rparr> ]"

definition all_regular :: "parsed_content_item list \<Rightarrow> categorized_parsed_items" where
  "all_regular items = \<lparr> componentItems = [], regularItems = items \<rparr>"

definition default_workflow :: workflow where
  "default_workflow =
     \<lparr> workflow_id = ''w1'', workflow_codename = ''default'',
       workflow_steps =
         [ \<lparr> step_id = ''s1'', step_codename = ''draft'' \<rparr>,
           \<lparr> step_id = ''s2'', step_codename = ''review'' \<rparr> ],
       publishedStep = \<lparr> step_id = ''s3'', step_codename = ''published'' \<rparr>,
       archivedStep = \<lparr> step_id = ''s4'', step_codename = ''archived'' \<rparr>,
       scheduledStep = \<lparr> step_id = ''s5'', step_codename = ''scheduled'' \<rparr> \<rparr>"

definition about_us_variant :: migration_item where
  "about_us_variant =
     \<lparr> migration_codename = ''about_us'', migration_name = ''About us'',
       migration_language = ''en'' \<rparr>"

definition empty_target :: memory_backend where
  "empty_target = \<lparr> mb_items = [], mb_steps = [], mb_broken = [] \<rparr>"

definition target_with_draft :: memory_backend where
  \<comment> \<open>the target holds \<open>about_us\<close>, whose English variant is in the step \<open>draft\<close>\<close>
  "target_with_draft =
     \<lparr> mb_items = [about_us_in_target],
       mb_steps = [((''about_us'', ''en''), ''draft'')],
       mb_broken = [] \<rparr>"

definition target_failing_about_us :: memory_backend where
  \<comment> \<open>an empty target where viewing \<open>about_us\<close> ends in a network error\<close>
  "target_failing_about_us = \<lparr> mb_items = [], mb_steps = [], mb_broken = [''about_us''] \<rparr>"


section \<open>Asset update decision\<close>

datatype binary_data = Blob "8 word list" | Buffer "8 word list"

definition geSizeInBytes :: "binary_data \<Rightarrow> nat" where
  "geSizeInBytes data =
     (case data of Blob bytes \<Rightarrow> length bytes | Buffer bytes \<Rightarrow> length bytes)"

record migration_asset_description =
  description_language_codename :: string
  description_text :: "string option"

record migration_asset =
  ma_codename :: string
  ma_filename :: string
  ma_title :: "string option"
  ma_collection_codename :: "string option"
  ma_descriptions :: "migration_asset_description list option"
  ma_binaryData :: binary_data

record asset_description =
  ad_language_id :: "string option"
  ad_description :: "string option"

record asset =
  asset_id :: string
  asset_fileName :: string
  asset_title :: "string option"
  asset_size :: nat
  asset_collection_reference_id :: "string option"
  asset_descriptions :: "asset_description list"

record language =
  language_id :: string
  language_codename :: string

definition nonEmpty :: "string option \<Rightarrow> string option" where
  \<comment> \<open>\<open>s?.length ? s : undefined\<close>\<close>
  "nonEmpty s = (case s of None \<Rightarrow> None | Some x \<Rightarrow> if length x \<noteq> 0 then Some x else None)"

definition findRequired :: "'a list \<Rightarrow> ('a \<Rightarrow> bool) \<Rightarrow> string \<Rightarrow> js_error + 'a" where
  \<comment> \<open>Modelled from the spec: \<open>findRequired\<close> is imported from the core module, which is
      not among the source files. The spec lists an "invalid collection/content-type/
      language codename" among the fatal errors that always propagate: the first element
      that satisfies the predicate, or an error with the given message.\<close>
  "findRequired array predicate errorMessage =
     (case find predicate array of None \<Rightarrow> Inl (Error errorMessage) | Some x \<Rightarrow> Inr x)"

fun map_throwing :: "('a \<Rightarrow> js_error + 'b) \<Rightarrow> 'a list \<Rightarrow> js_error + 'b list" where
  \<comment> \<open>\<open>Array.prototype.map\<close> with a callback that may throw\<close>
  "map_throwing f [] = Inr []"
| "map_throwing f (x # xs) =
     (case f x of
        Inl error \<Rightarrow> Inl error
      | Inr y \<Rightarrow> (case map_throwing f xs of Inl error \<Rightarrow> Inl error | Inr ys \<Rightarrow> Inr (y # ys)))"

definition object_toString :: "'a \<Rightarrow> string" where
  \<comment> \<open>the string form of a plain object\<close>
  "object_toString x = ''[object Object]''"

definition toSorted :: "'a list \<Rightarrow> 'a list" where
  \<comment> \<open>\<open>Array.prototype.toSorted()\<close> with no comparator, on an array of plain objects:
      a stable sort by the string forms of the elements\<close>
  "toSorted xs = sort_key object_toString xs"

definition deepEqual :: "migration_asset_description list \<Rightarrow> migration_asset_description list \<Rightarrow> bool" where
  \<comment> \<open>package deep-equal on two arrays of \<open>{description, language: {codename}}\<close>
      objects: same length and equal members position by position\<close>
  "deepEqual a b = (a = b)"

definition isBinaryFileIdentical :: "migration_asset \<Rightarrow> asset \<Rightarrow> bool" where
  "isBinaryFileIdentical migrationAsset targetAsset =
     (let sourceFileSize = geSizeInBytes (ma_binaryData migrationAsset);
          targetFileSize = asset_size targetAsset;
          sourceFilename = ma_filename migrationAsset;
          targetFilename = asset_fileName targetAsset
      in sourceFileSize = targetFileSize \<and> sourceFilename = targetFilename)"

definition isTitleIdentical :: "migration_asset \<Rightarrow> asset \<Rightarrow> bool" where
  "isTitleIdentical migrationAsset targetAsset =
     (let sourceTitle = nonEmpty (ma_title migrationAsset);
          targetTitle = nonEmpty (asset_title targetAsset)
      in sourceTitle = targetTitle)"

definition isInSameCollection :: "migration_asset \<Rightarrow> asset \<Rightarrow> collection list \<Rightarrow> bool" where
  "isInSameCollection migrationAsset targetAsset collections =
     (map_option collection_codename
        (find (\<lambda>m. Some (collection_id m) = asset_collection_reference_id targetAsset) collections)
      = ma_collection_codename migrationAsset)"

definition mapToMigrationDescriptions ::
  "asset \<Rightarrow> language list \<Rightarrow> js_error + migration_asset_description list" where
  "mapToMigrationDescriptions targetAsset languages =
     map_throwing
       (\<lambda>description.
          let languageId = ad_language_id description in
          case findRequired languages (\<lambda>language. Some (language_id language) = languageId)
                 (''Could not find language with id ''
                    @ quoted (case languageId of None \<Rightarrow> ''undefined'' | Some i \<Rightarrow> i)) of
            Inl error \<Rightarrow> Inl error
          | Inr language \<Rightarrow>
              Inr \<lparr> description_language_codename = language_codename language,
                    description_text = nonEmpty (ad_description description) \<rparr>)
       (asset_descriptions targetAsset)"

definition areDescriptionsIdentical ::
  "migration_asset \<Rightarrow> asset \<Rightarrow> language list \<Rightarrow> js_error + bool" where
  "areDescriptionsIdentical migrationAsset targetAsset languages =
     (let sourceMigrationDescriptions =
            toSorted
              (map (\<lambda>description.
                      \<lparr> description_language_codename = description_language_codename description,
                        description_text = nonEmpty (description_text description) \<rparr>)
                 (case ma_descriptions migrationAsset of None \<Rightarrow> [] | Some ds \<Rightarrow> ds))
      in case mapToMigrationDescriptions targetAsset languages of
           Inl error \<Rightarrow> Inl error
         | Inr mapped \<Rightarrow>
             (let targetMigrationDescriptions = toSorted mapped
              in Inr (deepEqual sourceMigrationDescriptions targetMigrationDescriptions)))"

definition shouldUpdateAsset ::
  "migration_asset \<Rightarrow> asset \<Rightarrow> collection list \<Rightarrow> language list \<Rightarrow> js_error + bool" where
  "shouldUpdateAsset migrationAsset targetAsset collections languages =
     (if \<not> isInSameCollection migrationAsset targetAsset collections then Inr True
      else
        (case areDescriptionsIdentical migrationAsset targetAsset languages of
           Inl error \<Rightarrow> Inl error
         | Inr identical \<Rightarrow>
             if \<not> identical then Inr True
             else if \<not> isTitleIdentical migrationAsset targetAsset then Inr True
             else if \<not> isBinaryFileIdentical migrationAsset targetAsset then Inr True
             else Inr False))"

definition shouldReplaceBinaryFile :: "migration_asset \<Rightarrow> asset \<Rightarrow> bool" where
  "shouldReplaceBinaryFile migrationAsset targetAsset =
     (if \<not> isBinaryFileIdentical migrationAsset targetAsset then True else False)"

definition descriptions_set_of_source :: "migration_asset \<Rightarrow> migration_asset_description set" where
  \<comment> \<open>the spec's "descriptions-set" of the incoming asset: its per-language
      descriptions, whatever their order\<close>
  "descriptions_set_of_source migrationAsset =
     set (map (\<lambda>description.
                 \<lparr> description_language_codename = description_language_codename description,
                   description_text = nonEmpty (description_text description) \<rparr>)
            (case ma_descriptions migrationAsset of None \<Rightarrow> [] | Some ds \<Rightarrow> ds))"

definition descriptions_set_of_target ::
  "asset \<Rightarrow> language list \<Rightarrow> migration_asset_description set" where
  \<comment> \<open>the same for the target asset, when all its languages resolve\<close>
  "descriptions_set_of_target targetAsset languages =
     (case mapToMigrationDescriptions targetAsset languages of
        Inl error \<Rightarrow> {}
      | Inr mapped \<Rightarrow> set mapped)"

subsection \<open>Example data\<close>

definition target_languages :: "language list" where
  "target_languages =
     [ \<lparr> language_id = ''id-of-en'', language_codename = ''en'' \<rparr>,
       \<lparr> language_id = ''id-of-de'', language_codename = ''de'' \<rparr> ]"

definition logo_incoming :: migration_asset where
  "logo_incoming =
     \<lparr> ma_codename = ''logo'', ma_filename = ''logo.png'', ma_title = Some ''Logo'',
       ma_collection_codename = Some ''default'',
       ma_descriptions =
         Some [ \<lparr> description_language_codename = ''en'', description_text = Some ''Our logo'' \<rparr>,
                \<lparr> description_language_codename = ''de'', description_text = Some ''Unser Logo'' \<rparr> ],
       ma_binaryData = Buffer [0x89, 0x50, 0x4E, 0x47] \<rparr>"

definition logo_in_target :: asset where
  \<comment> \<open>the same asset in the target, its descriptions listed German first\<close>
  "logo_in_target =
     \<lparr> asset_id = ''id-of-logo'', asset_fileName = ''logo.png'', asset_title = Some ''Logo'',
       asset_size = 4, asset_collection_reference_id = Some ''id-of-default'',
       asset_descriptions =
         [ \<lparr> ad_language_id = Some ''id-of-de'', ad_description = Some ''Unser Logo'' \<rparr>,
           \<lparr> ad_language_id = Some ''id-of-en'', ad_description = Some ''Our logo'' \<rparr> ] \<rparr>"


section \<open>Export context service\<close>

text \<open>
  The export reads the source environment: a view by id is answered by the item or
  asset, or by an error.
\<close>

record source_environment =
  viewContentItem_byItemId :: "string \<Rightarrow> js_error + content_item"
  viewAsset_byAssetId :: "string \<Rightarrow> js_error + asset"

datatype source_state = Exists | DoesNotExists

record item_state =
  item_state_id :: string
  item_state_item :: "content_item option"
  item_state_state :: source_state

record asset_state =
  asset_state_id :: string
  asset_state_asset :: "asset option"
  asset_state_state :: source_state

fun processInChunksAsync ::
  "('a \<Rightarrow> 'acc \<Rightarrow> js_error + 'acc) \<Rightarrow> 'a list \<Rightarrow> 'acc \<Rightarrow> js_error + 'acc" where
  \<comment> \<open>Modelled from the spec: \<open>processInChunksAsync\<close> is imported from the core module,
      which is not among the source files. The spec: the batch resolution "runs with
      bounded parallelism (chunked)" and the first unrecoverable error aborts the run.
      With \<open>chunkSize: 1\<close>, as both callers pass, the items are processed one after the
      other; \<open>'acc\<close> is the array the callback pushes to.\<close>
  "processInChunksAsync processAsync [] acc = Inr acc"
| "processInChunksAsync processAsync (item # items) acc =
     (case processAsync item acc of
        Inl error \<Rightarrow> Inl error
      | Inr acc' \<Rightarrow> processInChunksAsync processAsync items acc')"

definition getContentItemsByIdsAsync ::
  "source_environment \<Rightarrow> string list \<Rightarrow> js_error + content_item list" where
  "getContentItemsByIdsAsync env itemIds =
     processInChunksAsync
       (\<lambda>id contentItems.
          case viewContentItem_byItemId env id of
            Inr contentItem \<Rightarrow> Inr (contentItems @ [contentItem])
          | Inl error \<Rightarrow> if \<not> is404Error error then Inl error else Inr contentItems)
       itemIds []"

definition getAssetsByIdsAsync ::
  "source_environment \<Rightarrow> string list \<Rightarrow> js_error + asset list" where
  "getAssetsByIdsAsync env itemIds =
     processInChunksAsync
       (\<lambda>id assets.
          case viewAsset_byAssetId env id of
            Inr asset \<Rightarrow> Inr (assets @ [asset])
          | Inl error \<Rightarrow> if \<not> is404Error error then Inl error else Inr assets)
       itemIds []"

fun itemStates_loop :: "content_item list \<Rightarrow> string list \<Rightarrow> item_state list \<Rightarrow> item_state list" where
  \<comment> \<open>\<open>for (const itemId of itemIds)\<close> in \<open>getItemStatesAsync\<close>\<close>
  "itemStates_loop items [] itemStates = itemStates"
| "itemStates_loop items (itemId # itemIds) itemStates =
     (case find (\<lambda>m. item_id m = itemId) items of
        Some item \<Rightarrow>
          itemStates_loop items itemIds
            (itemStates @ [\<lparr> item_state_id = itemId, item_state_item = Some item,
                             item_state_state = Exists \<rparr>])
      | None \<Rightarrow>
          itemStates_loop items itemIds
            (itemStates @ [\<lparr> item_state_id = itemId, item_state_item = None,
                             item_state_state = DoesNotExists \<rparr>]))"

definition getItemStatesAsync :: "source_environment \<Rightarrow> string list \<Rightarrow> js_error + item_state list" where
  "getItemStatesAsync env itemIds =
     (case getContentItemsByIdsAsync env itemIds of
        Inl error \<Rightarrow> Inl error
      | Inr items \<Rightarrow> Inr (itemStates_loop items itemIds []))"

fun assetStates_loop :: "asset list \<Rightarrow> string list \<Rightarrow> asset_state list \<Rightarrow> asset_state list" where
  \<comment> \<open>\<open>for (const assetId of assetIds)\<close> in \<open>getAssetStatesAsync\<close>\<close>
  "assetStates_loop assets [] assetStates = assetStates"
| "assetStates_loop assets (assetId # assetIds) assetStates =
     (case find (\<lambda>m. asset_id m = assetId) assets of
        Some asset \<Rightarrow>
          assetStates_loop assets assetIds
            (assetStates @ [\<lparr> asset_state_id = assetId, asset_state_asset = Some asset,
                              asset_state_state = Exists \<rparr>])
      | None \<Rightarrow>
          assetStates_loop assets assetIds
            (assetStates @ [\<lparr> asset_state_id = assetId, asset_state_asset = None,
                              asset_state_state = DoesNotExists \<rparr>]))"

definition getAssetStatesAsync :: "source_environment \<Rightarrow> string list \<Rightarrow> js_error + asset_state list" where
  "getAssetStatesAsync env assetIds =
     (case getAssetsByIdsAsync env assetIds of
        Inl error \<Rightarrow> Inl error
      | Inr assets \<Rightarrow> Inr (assetStates_loop assets assetIds []))"

definition getItemStateInSourceEnvironment :: "item_state list \<Rightarrow> string \<Rightarrow> js_error + item_state" where
  \<comment> \<open>the closure of \<open>getExportContextAsync\<close> over \<open>itemStates\<close>\<close>
  "getItemStateInSourceEnvironment itemStates id' =
     (case find (\<lambda>m. item_state_id m = id') itemStates of
        None \<Rightarrow>
          Inl (Error (''Invalid state for item '' @ quoted id'
                 @ ''. It is expected that all item states will exist''))
      | Some itemState \<Rightarrow> Inr itemState)"

definition getAssetStateInSourceEnvironment :: "asset_state list \<Rightarrow> string \<Rightarrow> js_error + asset_state" where
  \<comment> \<open>the closure of \<open>getExportContextAsync\<close> over \<open>assetStates\<close>\<close>
  "getAssetStateInSourceEnvironment assetStates id' =
     (case find (\<lambda>m. asset_state_id m = id') assetStates of
        None \<Rightarrow>
          Inl (Error (''Invalid state for asset '' @ quoted id'
                 @ ''. It is expected that all asset states will exist''))
      | Some assetSate \<Rightarrow> Inr assetSate)"

subsection \<open>Example data\<close>

definition source_with_about_us :: source_environment where
  \<comment> \<open>a source environment that holds one item and one asset\<close>
  "source_with_about_us =
     \<lparr> viewContentItem_byItemId = (\<lambda>id.
         if id = ''id-of-about_us'' then Inr about_us_in_target
         else Inl (ContentManagementBaseKontentError
                     ''The requested content item was not found.'' 404)),
       viewAsset_byAssetId = (\<lambda>id.
         if id = ''id-of-logo'' then Inr logo_in_target
         else Inl (ContentManagementBaseKontentError
                     ''The requested asset was not found.'' 404)) \<rparr>"


section \<open>Auxiliary notions for the proofs\<close>

definition fetched :: "(string \<Rightarrow> js_error + 'a) \<Rightarrow> string list \<Rightarrow> 'a list" where
  \<comment> \<open>the entities the environment returns for a list of ids, in request order\<close>
  "fetched view ids = concat (map (\<lambda>i. case view i of Inr x \<Rightarrow> [x] | Inl e \<Rightarrow> []) ids)"

definition item_entry :: "content_item list \<Rightarrow> string \<Rightarrow> item_state" where
  \<comment> \<open>the entry one round of the loop of \<open>getItemStatesAsync\<close> pushes\<close>
  "item_entry items itemId =
     (case find (\<lambda>m. item_id m = itemId) items of
        Some item \<Rightarrow>
          \<lparr> item_state_id = itemId, item_state_item = Some item, item_state_state = Exists \<rparr>
      | None \<Rightarrow>
          \<lparr> item_state_id = itemId, item_state_item = None, item_state_state = DoesNotExists \<rparr>)"

definition asset_entry :: "asset list \<Rightarrow> string \<Rightarrow> asset_state" where
  \<comment> \<open>the entry one round of the loop of \<open>getAssetStatesAsync\<close> pushes\<close>
  "asset_entry assets assetId =
     (case find (\<lambda>m. asset_id m = assetId) assets of
        Some asset \<Rightarrow>
          \<lparr> asset_state_id = assetId, asset_state_asset = Some asset, asset_state_state = Exists \<rparr>
      | None \<Rightarrow>
          \<lparr> asset_state_id = assetId, asset_state_asset = None,
            asset_state_state = DoesNotExists \<rparr>)"


section \<open>Properties\<close>

subsection \<open>Shared facts\<close>

lemmas task_defs = bind_task_def return_task_def throw_task_def try_catch_def request_def
  log_event_def runMapiRequestAsync_def push_importedData_def

lemma find_Some_set: "find P xs = Some x \<Longrightarrow> x \<in> set xs \<and> P x"
  by (induction xs) (auto split: if_splits)

lemma find_None_set: "find P xs = None \<longleftrightarrow> (\<forall>x \<in> set xs. \<not> P x)"
  by (induction xs) auto

lemma sublist_app_left: "sublist x y \<Longrightarrow> sublist x (a @ y)"
  by (simp add: sublist_append)

lemma sublist_app_right: "sublist x y \<Longrightarrow> sublist x (y @ b)"
  by (simp add: sublist_append)


subsection \<open>Importing content items\<close>

lemma try_catch_return: "try_catch (return_task x) handler = return_task x"
  by (rule ext) (simp add: try_catch_def return_task_def)

text \<open>
  The handler of the loop guards an empty block, so the configuration flag has no
  effect on any run.
\<close>

lemma importContentItems_loop_ignores_skipFailedItems:
  "importContentItems_loop client collections True n items i prepared
   = importContentItems_loop client collections False n items i prepared"
  by (induction items arbitrary: i prepared) (simp_all add: try_catch_return)

text \<open>
  C1, at the failing input. With \<open>skipFailedItems = true\<close> and the items \<open>about_us\<close> and
  \<open>contact\<close>, where viewing \<open>about_us\<close> ends in a network error: the error leaves
  \<open>importContentItemsAsync\<close>, and no request is ever sent for \<open>contact\<close>. The claim asks
  for the error to be logged and \<open>contact\<close> to be imported.
\<close>

theorem importContentItemsAsync_skipFailedItems_still_aborts:
  "fst (importContentItemsAsync all_regular memory_client [about_us, contact]
          target_collections True (new_world target_failing_about_us))
     = Inl (Error ''socket hang up'')
   \<and> calls (snd (importContentItemsAsync all_regular memory_client [about_us, contact]
          target_collections True (new_world target_failing_about_us)))
     = [ViewContentItem ''about_us'']"
  by (simp add: importContentItemsAsync_def importContentItemAsync_def
      prepareContentItemAsync_def memory_client_def new_world_def about_us_def contact_def
      all_regular_def target_failing_about_us_def is404Error_def task_defs)

text \<open>
  The collection the comparison uses is the one found under the incoming codename, so
  the second disjunct is never true: for a known collection the decision rests on the
  name alone.
\<close>

lemma shouldUpdateContentItem_compares_name_only:
  "shouldUpdateContentItem parsed contentItem collections = Inr b
   \<Longrightarrow> b = (system_name parsed \<noteq> item_name contentItem)"
  by (auto simp: shouldUpdateContentItem_def split: option.splits dest: find_Some_set)

lemma shouldUpdateContentItem_misses_collection_change:
  "shouldUpdateContentItem about_us about_us_in_target target_collections = Inr False"
  by (simp add: shouldUpdateContentItem_def about_us_def about_us_in_target_def
      target_collections_def)

text \<open>
  C2, at the failing input. The target holds \<open>about_us\<close> under the same name in the
  collection \<open>default\<close>; the incoming item names the collection \<open>marketing\<close>. The
  collections differ, yet the only request sent is the view: no upsert.
\<close>

theorem importContentItemAsync_collection_change_not_upserted:
  "system_name about_us = item_name about_us_in_target
   \<and> map_option collection_codename
        (find (\<lambda>m. collection_id m = item_collection_id about_us_in_target) target_collections)
      = Some ''default''
   \<and> system_collection about_us = ''marketing''
   \<and> fst (importContentItemAsync memory_client target_collections about_us []
            (new_world target_with_draft)) = Inr [about_us_in_target]
   \<and> calls (snd (importContentItemAsync memory_client target_collections about_us []
            (new_world target_with_draft))) = [ViewContentItem ''about_us'']"
  by (simp add: importContentItemAsync_def prepareContentItemAsync_def
      shouldUpdateContentItem_def memory_client_def new_world_def about_us_in_target_def
      about_us_def target_with_draft_def target_collections_def task_defs)

text \<open>
  C5. When the view of the incoming codename fails with a 404 error, exactly one create
  request follows, carrying the incoming name, type codename, codename and collection
  codename; when the create succeeds the result is the created item with status
  \<open>created\<close> (and the pair is recorded in the imported data), when it fails its error
  leaves the function. When the view fails with any other error, that error leaves the
  function unchanged and the view is the only request sent.
\<close>

theorem prepareContentItemAsync_view_failure:
  "viewContentItem client (system_codename p) (backend w) = (Inl error, b1) \<Longrightarrow>
   (if is404Error error then
      (case addContentItem client
              \<lparr> add_name = system_name p, add_type_codename = system_type p,
                add_codename = system_codename p,
                add_collection_codename = system_collection p \<rparr> b1 of
         (Inr contentItem, b2) \<Rightarrow>
           prepareContentItemAsync client p w =
             (Inr (contentItem, Created),
              w\<lparr> backend := b2,
                 calls := calls w @
                   [ViewContentItem (system_codename p),
                    AddContentItem
                      \<lparr> add_name = system_name p, add_type_codename = system_type p,
                        add_codename = system_codename p,
                        add_collection_codename = system_collection p \<rparr>],
                 logs := logs w @
                   [(''create'', ''Creating item '' @ quoted (item_name contentItem))],
                 importedData_contentItems :=
                   importedData_contentItems w @ [(p, contentItem)] \<rparr>)
       | (Inl error2, b2) \<Rightarrow>
           prepareContentItemAsync client p w =
             (Inl error2,
              w\<lparr> backend := b2,
                 calls := calls w @
                   [ViewContentItem (system_codename p),
                    AddContentItem
                      \<lparr> add_name = system_name p, add_type_codename = system_type p,
                        add_codename = system_codename p,
                        add_collection_codename = system_collection p \<rparr>] \<rparr>))
    else
      prepareContentItemAsync client p w =
        (Inl error,
         w\<lparr> backend := b1, calls := calls w @ [ViewContentItem (system_codename p)] \<rparr>))"
  by (auto simp: prepareContentItemAsync_def task_defs is404Error_def
      split: prod.splits sum.splits js_error.splits)

theorem prepareContentItemAsync_view_failure_witness:
  "fst (prepareContentItemAsync memory_client about_us (new_world empty_target))
     = Inr (\<lparr> item_id = ''id-of-about_us'', item_name = ''About us'',
              item_codename = ''about_us'', item_type_id = ''id-of-page'',
              item_collection_id = ''id-of-marketing'' \<rparr>, Created)
   \<and> calls (snd (prepareContentItemAsync memory_client about_us (new_world empty_target)))
     = [ViewContentItem ''about_us'',
        AddContentItem \<lparr> add_name = ''About us'', add_type_codename = ''page'',
                         add_codename = ''about_us'', add_collection_codename = ''marketing'' \<rparr>]
   \<and> prepareContentItemAsync memory_client about_us (new_world target_failing_about_us)
     = (Inl (Error ''socket hang up''),
        (new_world target_failing_about_us)\<lparr> calls := [ViewContentItem ''about_us''] \<rparr>)"
proof -
  have v1: "viewContentItem memory_client (system_codename about_us)
              (backend (new_world empty_target))
            = (Inl (ContentManagementBaseKontentError
                      ''The requested content item was not found.'' 404), empty_target)"
    by (simp add: memory_client_def about_us_def new_world_def empty_target_def)
  have v2: "viewContentItem memory_client (system_codename about_us)
              (backend (new_world target_failing_about_us))
            = (Inl (Error ''socket hang up''), target_failing_about_us)"
    by (simp add: memory_client_def about_us_def new_world_def target_failing_about_us_def)
  show ?thesis
    using prepareContentItemAsync_view_failure [OF v1] prepareContentItemAsync_view_failure [OF v2]
    by (simp add: is404Error_def memory_client_def about_us_def new_world_def empty_target_def
        new_item_def)
qed


subsection \<open>Workflow of a language variant\<close>

lemma archived_step_represented:
  "w \<in> set workflows \<Longrightarrow> step_codename (archivedStep w) = c \<Longrightarrow>
   doesWorkflowStepCodenameRepresentArchivedStep c workflows"
  by (induction workflows) auto

lemma getWorkflowAndStep_workflow_in_list:
  "getWorkflowAndStep s c workflows = Inr ws \<Longrightarrow> was_workflow ws \<in> set workflows"
  by (auto simp: getWorkflowAndStep_def split: option.splits dest: find_Some_set)

text \<open>
  For a regular step the function does not depend on the state of the environment: when
  the codename of the workflow differs from the step codename, one change-workflow
  request to that step is sent, whatever step the variant is in.
\<close>

lemma setWorkflow_regular_step_sends_request:
  assumes "getWorkflowAndStep stepCodename workflowCodename workflows = Inr ws"
    and "\<not> doesWorkflowStepCodenameRepresentPublishedStep stepCodename workflows"
    and "\<not> doesWorkflowStepCodenameRepresentScheduledStep stepCodename workflows"
    and "\<not> doesWorkflowStepCodenameRepresentArchivedStep stepCodename workflows"
    and "workflow_codename (was_workflow ws) \<noteq> stepCodename"
  shows "calls (snd (setWorkflowOfLanguageVariantAsync client workflowCodename stepCodename
                       item workflows w))
         = calls w @
             [ChangeWorkflowOfLanguageVariant (migration_codename item) (migration_language item)
                \<lparr> step_identifier_codename = step_codename (was_step ws),
                  workflow_identifier_codename = workflow_codename (was_workflow ws) \<rparr>]"
  using assms
  by (simp add: setWorkflowOfLanguageVariantAsync_def task_defs split: prod.splits)

text \<open>
  C3, at the failing input. The workflow \<open>default\<close> has the steps \<open>draft\<close>, \<open>review\<close>,
  \<open>published\<close>, \<open>archived\<close> and \<open>scheduled\<close>; the English variant of \<open>about_us\<close> is in
  \<open>draft\<close>. Setting its step to \<open>draft\<close> sends one change-workflow request: the no-op
  test compares the codename of the workflow, not the step of the variant, with the
  target step. The claim asks for no request at all.
\<close>

theorem setWorkflow_draft_when_in_draft_sends_request:
  "map_of (mb_steps target_with_draft) (''about_us'', ''en'') = Some ''draft''
   \<and> setWorkflowOfLanguageVariantAsync memory_client ''default'' ''draft'' about_us_variant
        [default_workflow] (new_world target_with_draft)
     = (Inr (),
        \<lparr> backend =
            target_with_draft
              \<lparr> mb_steps :=
                  [((''about_us'', ''en''), ''draft''), ((''about_us'', ''en''), ''draft'')] \<rparr>,
          calls =
            [ChangeWorkflowOfLanguageVariant ''about_us'' ''en''
               \<lparr> step_identifier_codename = ''draft'',
                 workflow_identifier_codename = ''default'' \<rparr>],
          logs = [(''changeWorkflowStep'', ''about_us (en) -> draft'')],
          importedData_contentItems = [] \<rparr>)"
  by (simp add: setWorkflowOfLanguageVariantAsync_def getWorkflowAndStep_def getWorkflowStep_def
      default_workflow_def about_us_variant_def memory_client_def new_world_def task_defs
      toLowerCase_def target_with_draft_def variant_title_def)

text \<open>
  C4. Let the target step codename be the codename of the archived step of the resolved
  workflow, and of no published or scheduled step of the listed workflows. Then the
  first request is the unpublish. When it succeeds, or fails with the content
  management domain error (which is then logged), exactly one change-workflow request
  follows, to the archived step of the workflow, and its outcome is the outcome of the
  call. When the unpublish fails with any other error, that error leaves the function
  and the unpublish is the only request sent.
\<close>

theorem setWorkflow_archived_unpublishes_then_archives:
  assumes "getWorkflowAndStep stepCodename workflowCodename workflows = Inr ws"
    and "step_codename (archivedStep (was_workflow ws)) = stepCodename"
    and "\<not> doesWorkflowStepCodenameRepresentPublishedStep stepCodename workflows"
    and "\<not> doesWorkflowStepCodenameRepresentScheduledStep stepCodename workflows"
    and "unpublishLanguageVariant client (migration_codename item) (migration_language item)
           (backend w) = (r1, b1)"
    and "changeWorkflowOfLanguageVariant client (migration_codename item)
           (migration_language item)
           \<lparr> step_identifier_codename = step_codename (archivedStep (was_workflow ws)),
             workflow_identifier_codename = workflow_codename (was_workflow ws) \<rparr> b1
         = (r2, b2)"
  shows "(case setWorkflowOfLanguageVariantAsync client workflowCodename stepCodename item
                 workflows w of
            (r, w') \<Rightarrow>
              (case r1 of
                 Inr u \<Rightarrow>
                   r = r2 \<and> backend w' = b2
                   \<and> calls w' = calls w @
                       [UnpublishLanguageVariant (migration_codename item)
                          (migration_language item),
                        ChangeWorkflowOfLanguageVariant (migration_codename item)
                          (migration_language item)
                          \<lparr> step_identifier_codename =
                              step_codename (archivedStep (was_workflow ws)),
                            workflow_identifier_codename =
                              workflow_codename (was_workflow ws) \<rparr>]
               | Inl (ContentManagementBaseKontentError message status) \<Rightarrow>
                   r = r2 \<and> backend w' = b2
                   \<and> (''unpublish'',
                       ''Unpublish failed, but this may be expected behavior as we cannot determine if there is a published version already. Error received: ''
                         @ message) \<in> set (logs w')
                   \<and> calls w' = calls w @
                       [UnpublishLanguageVariant (migration_codename item)
                          (migration_language item),
                        ChangeWorkflowOfLanguageVariant (migration_codename item)
                          (migration_language item)
                          \<lparr> step_identifier_codename =
                              step_codename (archivedStep (was_workflow ws)),
                            workflow_identifier_codename =
                              workflow_codename (was_workflow ws) \<rparr>]
               | Inl error \<Rightarrow>
                   r = Inl error \<and> backend w' = b1
                   \<and> calls w' = calls w @
                       [UnpublishLanguageVariant (migration_codename item)
                          (migration_language item)]))"
proof -
  have archived: "doesWorkflowStepCodenameRepresentArchivedStep stepCodename workflows"
    using assms(1,2) getWorkflowAndStep_workflow_in_list archived_step_represented by blast
  show ?thesis
    using assms archived
    by (auto simp: setWorkflowOfLanguageVariantAsync_def task_defs
        split: sum.splits js_error.splits prod.splits)
qed

theorem setWorkflow_archived_unpublishes_then_archives_witness:
  "fst (setWorkflowOfLanguageVariantAsync memory_client ''default'' ''archived''
          about_us_variant [default_workflow] (new_world target_with_draft)) = Inr ()
   \<and> calls (snd (setWorkflowOfLanguageVariantAsync memory_client ''default'' ''archived''
          about_us_variant [default_workflow] (new_world target_with_draft)))
     = [UnpublishLanguageVariant ''about_us'' ''en'',
        ChangeWorkflowOfLanguageVariant ''about_us'' ''en''
          \<lparr> step_identifier_codename = ''archived'',
            workflow_identifier_codename = ''default'' \<rparr>]
   \<and> (''unpublish'',
       ''Unpublish failed, but this may be expected behavior as we cannot determine if there is a published version already. Error received: The language variant is not published.'')
      \<in> set (logs (snd (setWorkflowOfLanguageVariantAsync memory_client ''default''
            ''archived'' about_us_variant [default_workflow] (new_world target_with_draft))))"
proof -
  let ?ws = "\<lparr> was_workflow = default_workflow,
               was_step = \<lparr> step_id = ''s4'', step_codename = ''archived'' \<rparr> \<rparr>"
  have h1: "getWorkflowAndStep ''archived'' ''default'' [default_workflow] = Inr ?ws"
    by (simp add: getWorkflowAndStep_def getWorkflowStep_def default_workflow_def
        toLowerCase_def)
  have h2: "step_codename (archivedStep (was_workflow ?ws)) = ''archived''"
    by (simp add: default_workflow_def)
  have h3: "\<not> doesWorkflowStepCodenameRepresentPublishedStep ''archived'' [default_workflow]"
    by (simp add: default_workflow_def)
  have h4: "\<not> doesWorkflowStepCodenameRepresentScheduledStep ''archived'' [default_workflow]"
    by (simp add: default_workflow_def)
  have h5: "unpublishLanguageVariant memory_client (migration_codename about_us_variant)
              (migration_language about_us_variant) (backend (new_world target_with_draft))
            = (Inl (ContentManagementBaseKontentError
                      ''The language variant is not published.'' 400), target_with_draft)"
    by (simp add: memory_client_def about_us_variant_def new_world_def target_with_draft_def)
  have h6: "changeWorkflowOfLanguageVariant memory_client
              (migration_codename about_us_variant) (migration_language about_us_variant)
              \<lparr> step_identifier_codename = step_codename (archivedStep (was_workflow ?ws)),
                workflow_identifier_codename = workflow_codename (was_workflow ?ws) \<rparr>
              target_with_draft
            = (Inr (),
               target_with_draft
                 \<lparr> mb_steps := ((''about_us'', ''en''), ''archived'')
                                 # mb_steps target_with_draft \<rparr>)"
    by (simp add: memory_client_def about_us_variant_def default_workflow_def)
  show ?thesis
    using setWorkflow_archived_unpublishes_then_archives [OF h1 h2 h3 h4 h5 h6]
    by (simp add: case_prod_beta new_world_def about_us_variant_def default_workflow_def)
qed

subsection \<open>Resolving workflows and steps\<close>

lemma sublist_join: "x \<in> set xs \<Longrightarrow> sublist x (join sep xs)"
proof (induction sep xs rule: join.induct)
  case (1 sep)
  then show ?case by simp
next
  case (2 sep y)
  then show ?case by simp
next
  case (3 sep y z zs)
  show ?case
  proof (cases "x = y")
    case True
    then show ?thesis by (simp add: sublist_append)
  next
    case False
    with 3 have "sublist x (join sep (z # zs))" by simp
    then show ?thesis by (simp add: sublist_append)
  qed
qed

lemma sublist_ansi: "sublist s (ansi code s)"
  unfolding ansi_def sublist_def
  by (rule exI [of _ "CHR 0x1B # ''['' @ code @ ''m''"], rule exI [of _ "CHR 0x1B # ''[39m''"])
    simp

lemma sublist_quoted: "sublist s (quoted s)"
  unfolding quoted_def sublist_def
  by (rule exI [of _ "[CHR 0x27]"], rule exI [of _ "[CHR 0x27]"]) simp

lemma not_found_message_names_codename:
  "sublist workflowCodename
     (workflow_not_found_message chalk_red chalk_cyan workflowCodename workflows)"
proof -
  have "sublist workflowCodename (chalk_red workflowCodename)"
    unfolding chalk_red_def by (rule sublist_ansi)
  then have q: "sublist workflowCodename (quoted (chalk_red workflowCodename))"
    using sublist_quoted sublist_order.order_trans by blast
  show ?thesis
    unfolding workflow_not_found_message_def join.simps
    apply (rule sublist_app_right)
    apply (rule sublist_app_left)
    apply (rule sublist_app_right)
    apply (rule q)
    done
qed

lemma not_found_message_lists_workflows:
  assumes "m \<in> set workflows"
  shows "sublist (workflow_codename m)
           (workflow_not_found_message chalk_red chalk_cyan workflowCodename workflows)"
proof -
  have "chalk_cyan (workflow_codename m)
          \<in> set (map (\<lambda>m. chalk_cyan (workflow_codename m)) workflows)"
    using assms by auto
  then have "sublist (chalk_cyan (workflow_codename m))
               (join '', '' (map (\<lambda>m. chalk_cyan (workflow_codename m)) workflows))"
    by (rule sublist_join)
  moreover have "sublist (workflow_codename m) (chalk_cyan (workflow_codename m))"
    unfolding chalk_cyan_def by (rule sublist_ansi)
  ultimately have j: "sublist (workflow_codename m)
                        (join '', '' (map (\<lambda>m. chalk_cyan (workflow_codename m)) workflows))"
    using sublist_order.order_trans by blast
  show ?thesis
    unfolding workflow_not_found_message_def join.simps
    apply (rule sublist_app_left)
    apply (rule sublist_app_left)
    apply (rule sublist_app_left)
    apply (rule sublist_app_left)
    apply (rule sublist_app_left)
    apply (rule j)
    done
qed

lemma colors_eq_chalk: "colors_red = chalk_red" "colors_cyan = chalk_cyan"
  by (rule ext, simp add: colors_red_def chalk_red_def)
    (rule ext, simp add: colors_cyan_def chalk_cyan_def)

lemma getWorkflowStep_None:
  "getWorkflowStep workflow stepCodename = None \<longleftrightarrow>
     step_codename (archivedStep workflow) \<noteq> stepCodename
   \<and> step_codename (publishedStep workflow) \<noteq> stepCodename
   \<and> step_codename (scheduledStep workflow) \<noteq> stepCodename
   \<and> stepCodename \<notin> step_codename ` set (workflow_steps workflow)"
  by (auto simp: getWorkflowStep_def find_None_set split: option.splits dest: find_Some_set)

text \<open>
  C8 as stated fails in its second half: the error for an unknown step names the step
  and the workflow, and none of the workflow's step codenames.
\<close>

theorem unknown_step_error_lists_no_steps_counterexample:
  "(case getWorkflowAndStep ''nope'' ''default'' [default_workflow] of
      Inl (Error message) \<Rightarrow>
        \<not> sublist ''draft'' message \<and> \<not> sublist ''review'' message
        \<and> \<not> sublist ''published'' message \<and> \<not> sublist ''archived'' message
        \<and> \<not> sublist ''scheduled'' message
    | _ \<Rightarrow> False)"
  by (simp add: getWorkflowAndStep_def getWorkflowStep_def default_workflow_def toLowerCase_def
      quoted_def chalk_red_def chalk_cyan_def ansi_def sublist_code)

text \<open>
  C8, amended. When no workflow of the list has the codename (compared in lower case),
  both \<open>getWorkflowAndStep\<close> and \<open>getWorkflowByCodename\<close> throw an error whose message
  contains the invalid codename and the codename of every workflow of the list. When
  the workflow is found and the step codename is none of its archived, published,
  scheduled or regular step codenames, \<open>getWorkflowAndStep\<close> throws an error whose
  message is made of the invalid step codename and the workflow's codename.
\<close>

theorem workflow_resolution_errors:
  "((\<forall>m \<in> set workflows. toLowerCase (workflow_codename m) \<noteq> toLowerCase workflowCodename) \<longrightarrow>
      (\<exists>message.
         getWorkflowAndStep stepCodename workflowCodename workflows = Inl (Error message)
       \<and> getWorkflowByCodename workflowCodename workflows = Inl (Error message)
       \<and> sublist workflowCodename message
       \<and> (\<forall>m \<in> set workflows. sublist (workflow_codename m) message)))
   \<and> (find (\<lambda>m. toLowerCase (workflow_codename m) = toLowerCase workflowCodename) workflows
         = Some workflow
       \<and> step_codename (archivedStep workflow) \<noteq> stepCodename
       \<and> step_codename (publishedStep workflow) \<noteq> stepCodename
       \<and> step_codename (scheduledStep workflow) \<noteq> stepCodename
       \<and> stepCodename \<notin> step_codename ` set (workflow_steps workflow) \<longrightarrow>
      getWorkflowAndStep stepCodename workflowCodename workflows
        = Inl (Error (''Workflow step with codename '' @ quoted (chalk_red stepCodename)
                @ '' does not exist within worklflow ''
                @ quoted (chalk_cyan (workflow_codename workflow))))
      \<and> getWorkflowByCodename workflowCodename workflows = Inr workflow)"
proof (intro conjI impI)
  assume "\<forall>m \<in> set workflows. toLowerCase (workflow_codename m) \<noteq> toLowerCase workflowCodename"
  then have f: "find (\<lambda>m. toLowerCase (workflow_codename m) = toLowerCase workflowCodename)
                  workflows = None"
    by (simp add: find_None_set)
  show "\<exists>message.
          getWorkflowAndStep stepCodename workflowCodename workflows = Inl (Error message)
        \<and> getWorkflowByCodename workflowCodename workflows = Inl (Error message)
        \<and> sublist workflowCodename message
        \<and> (\<forall>m \<in> set workflows. sublist (workflow_codename m) message)"
    using f not_found_message_names_codename not_found_message_lists_workflows
    by (simp add: getWorkflowAndStep_def getWorkflowByCodename_def colors_eq_chalk)
next
  assume b: "find (\<lambda>m. toLowerCase (workflow_codename m) = toLowerCase workflowCodename) workflows
               = Some workflow
             \<and> step_codename (archivedStep workflow) \<noteq> stepCodename
             \<and> step_codename (publishedStep workflow) \<noteq> stepCodename
             \<and> step_codename (scheduledStep workflow) \<noteq> stepCodename
             \<and> stepCodename \<notin> step_codename ` set (workflow_steps workflow)"
  then have "getWorkflowStep workflow stepCodename = None"
    by (simp add: getWorkflowStep_None)
  with b show "getWorkflowAndStep stepCodename workflowCodename workflows
        = Inl (Error (''Workflow step with codename '' @ quoted (chalk_red stepCodename)
                @ '' does not exist within worklflow ''
                @ quoted (chalk_cyan (workflow_codename workflow))))"
    by (simp add: getWorkflowAndStep_def)
  from b show "getWorkflowByCodename workflowCodename workflows = Inr workflow"
    by (simp add: getWorkflowByCodename_def)
qed

theorem workflow_resolution_errors_witness:
  "(\<exists>message.
      getWorkflowAndStep ''draft'' ''marketing'' [default_workflow] = Inl (Error message)
    \<and> getWorkflowByCodename ''marketing'' [default_workflow] = Inl (Error message)
    \<and> sublist ''marketing'' message \<and> sublist ''default'' message)
   \<and> getWorkflowAndStep ''nope'' ''DEFAULT'' [default_workflow]
     = Inl (Error (''Workflow step with codename '' @ quoted (chalk_red ''nope'')
             @ '' does not exist within worklflow '' @ quoted (chalk_cyan ''default'')))"
proof -
  have l1: "toLowerCase ''DEFAULT'' = ''default''" by code_simp
  have l2: "toLowerCase ''default'' = ''default''" by code_simp
  have l3: "toLowerCase ''marketing'' = ''marketing''" by code_simp
  show ?thesis
    using workflow_resolution_errors
            [where workflows = "[default_workflow]" and workflowCodename = "''marketing''"
               and stepCodename = "''draft''" and workflow = default_workflow]
          workflow_resolution_errors
            [where workflows = "[default_workflow]" and workflowCodename = "''DEFAULT''"
               and stepCodename = "''nope''" and workflow = default_workflow]
    by (simp add: default_workflow_def l1 l2 l3)
qed


subsection \<open>Asset update decision\<close>

lemma insort_key_object_toString: "insort_key object_toString x xs = x # xs"
  by (cases xs) (simp_all add: object_toString_def)

text \<open>
  Every plain object has the same string form, so the stable sort without a comparator
  leaves the order of the descriptions as it was.
\<close>

lemma toSorted_identity: "toSorted xs = xs"
  unfolding toSorted_def
  by (induction xs) (simp_all add: insort_key_object_toString)

text \<open>
  When the languages of the target's descriptions resolve, the decision is: update
  unless the collection codenames agree, the two description lists are equal position
  by position, the titles agree and the binary files agree.
\<close>

lemma shouldUpdateAsset_decision:
  assumes "mapToMigrationDescriptions targetAsset languages = Inr mapped"
  shows "shouldUpdateAsset migrationAsset targetAsset collections languages
         = Inr (\<not> (isInSameCollection migrationAsset targetAsset collections
                   \<and> map (\<lambda>description.
                             \<lparr> description_language_codename =
                                 description_language_codename description,
                               description_text = nonEmpty (description_text description) \<rparr>)
                        (case ma_descriptions migrationAsset of None \<Rightarrow> [] | Some ds \<Rightarrow> ds)
                      = mapped
                   \<and> isTitleIdentical migrationAsset targetAsset
                   \<and> isBinaryFileIdentical migrationAsset targetAsset))"
  using assms
  by (simp add: shouldUpdateAsset_def areDescriptionsIdentical_def toSorted_identity
      deepEqual_def)

lemma shouldReplaceBinaryFile_iff:
  "shouldReplaceBinaryFile migrationAsset targetAsset \<longleftrightarrow>
     geSizeInBytes (ma_binaryData migrationAsset) \<noteq> asset_size targetAsset
     \<or> ma_filename migrationAsset \<noteq> asset_fileName targetAsset"
  by (auto simp: shouldReplaceBinaryFile_def isBinaryFileIdentical_def)

lemma shouldReplaceBinaryFile_ignores_metadata:
  "shouldReplaceBinaryFile
     (migrationAsset\<lparr> ma_title := title, ma_collection_codename := collection,
                       ma_descriptions := descriptions \<rparr>)
     (targetAsset\<lparr> asset_title := title', asset_collection_reference_id := collection',
                    asset_descriptions := descriptions' \<rparr>)
   = shouldReplaceBinaryFile migrationAsset targetAsset"
  by (simp add: shouldReplaceBinaryFile_def isBinaryFileIdentical_def)

text \<open>
  C6, at the failing input. The incoming asset \<open>logo\<close> and the target asset agree on the
  collection, on the title, on size and file name, and on the description of every
  language; the target lists the German description before the English one. The
  binary file is not to be replaced, but \<open>shouldUpdateAsset\<close> answers true: the
  \<open>toSorted()\<close> calls leave both lists in their order, and the lists are compared
  position by position. The claim asks for false.
\<close>

theorem shouldUpdateAsset_reordered_descriptions:
  "descriptions_set_of_source logo_incoming
     = descriptions_set_of_target logo_in_target target_languages
   \<and> isInSameCollection logo_incoming logo_in_target target_collections
   \<and> isTitleIdentical logo_incoming logo_in_target
   \<and> isBinaryFileIdentical logo_incoming logo_in_target
   \<and> shouldReplaceBinaryFile logo_incoming logo_in_target = False
   \<and> shouldUpdateAsset logo_incoming logo_in_target target_collections target_languages
     = Inr True"
  by (auto simp add: descriptions_set_of_source_def descriptions_set_of_target_def
      mapToMigrationDescriptions_def findRequired_def logo_incoming_def logo_in_target_def
      target_languages_def target_collections_def isInSameCollection_def isTitleIdentical_def
      isBinaryFileIdentical_def shouldReplaceBinaryFile_def shouldUpdateAsset_def
      areDescriptionsIdentical_def toSorted_identity deepEqual_def nonEmpty_def
      geSizeInBytes_def)


subsection \<open>Item and asset states of the export context\<close>

lemma processInChunks_views_Inr:
  "processInChunksAsync
     (\<lambda>i acc. case view i of
                 Inr x \<Rightarrow> Inr (acc @ [x])
               | Inl error \<Rightarrow> if \<not> is404Error error then Inl error else Inr acc) ids acc
     = Inr r
   \<longleftrightarrow> (\<forall>i \<in> set ids. \<forall>e. view i = Inl e \<longrightarrow> is404Error e) \<and> r = acc @ fetched view ids"
  by (induction ids arbitrary: acc) (auto simp: fetched_def split: sum.splits)

lemma processInChunks_views_total:
  "\<forall>i \<in> set ids. \<forall>e. view i = Inl e \<longrightarrow> is404Error e \<Longrightarrow>
   processInChunksAsync
     (\<lambda>i acc. case view i of
                 Inr x \<Rightarrow> Inr (acc @ [x])
               | Inl error \<Rightarrow> if \<not> is404Error error then Inl error else Inr acc) ids acc
   = Inr (acc @ fetched view ids)"
  by (simp add: processInChunks_views_Inr)

lemma find_fetched:
  assumes "\<forall>i x. view i = Inr x \<longrightarrow> key x = i"
  shows "find (\<lambda>m. key m = i) (fetched view ids)
         = (if i \<in> set ids then (case view i of Inr x \<Rightarrow> Some x | Inl e \<Rightarrow> None) else None)"
  using assms by (induction ids) (auto simp: fetched_def split: sum.splits)

lemma itemStates_loop_map: "itemStates_loop items ids acc = acc @ map (item_entry items) ids"
  by (induction ids arbitrary: acc) (auto simp: item_entry_def split: option.splits)

lemma assetStates_loop_map: "assetStates_loop assets ids acc = acc @ map (asset_entry assets) ids"
  by (induction ids arbitrary: acc) (auto simp: asset_entry_def split: option.splits)

lemma item_entry_id: "item_state_id (item_entry items i) = i"
  by (simp add: item_entry_def split: option.splits)

lemma asset_entry_id: "asset_state_id (asset_entry assets i) = i"
  by (simp add: asset_entry_def split: option.splits)

lemma find_item_entry:
  "i \<in> set ids \<Longrightarrow>
   find (\<lambda>m. item_state_id m = i) (map (item_entry items) ids) = Some (item_entry items i)"
  by (induction ids) (auto simp: item_entry_id)

lemma find_asset_entry:
  "i \<in> set ids \<Longrightarrow>
   find (\<lambda>m. asset_state_id m = i) (map (asset_entry assets) ids) = Some (asset_entry assets i)"
  by (induction ids) (auto simp: asset_entry_id)

lemma getItemStatesAsync_Inr:
  "getItemStatesAsync env ids = Inr states \<longleftrightarrow>
     (\<forall>i \<in> set ids. \<forall>e. viewContentItem_byItemId env i = Inl e \<longrightarrow> is404Error e)
     \<and> states = map (item_entry (fetched (viewContentItem_byItemId env) ids)) ids"
  by (auto simp: getItemStatesAsync_def getContentItemsByIdsAsync_def processInChunks_views_Inr
      processInChunks_views_total itemStates_loop_map split: sum.splits)

lemma getAssetStatesAsync_Inr:
  "getAssetStatesAsync env ids = Inr states \<longleftrightarrow>
     (\<forall>i \<in> set ids. \<forall>e. viewAsset_byAssetId env i = Inl e \<longrightarrow> is404Error e)
     \<and> states = map (asset_entry (fetched (viewAsset_byAssetId env) ids)) ids"
  by (auto simp: getAssetStatesAsync_def getAssetsByIdsAsync_def processInChunks_views_Inr
      processInChunks_views_total assetStates_loop_map split: sum.splits)

lemma item_states_cover:
  assumes "getItemStatesAsync env itemIds = Inr itemStates"
  shows "map item_state_id itemStates = itemIds"
    and "i \<in> set itemIds \<Longrightarrow>
           \<exists>st. getItemStateInSourceEnvironment itemStates i = Inr st \<and> item_state_id st = i
                \<and> (item_state_state st = Exists) = (item_state_item st \<noteq> None)"
    and "(\<forall>j x. viewContentItem_byItemId env j = Inr x \<longrightarrow> item_id x = j) \<Longrightarrow>
         i \<in> set itemIds \<Longrightarrow>
           getItemStateInSourceEnvironment itemStates i =
             Inr (case viewContentItem_byItemId env i of
                    Inr item \<Rightarrow>
                      \<lparr> item_state_id = i, item_state_item = Some item,
                        item_state_state = Exists \<rparr>
                  | Inl e \<Rightarrow>
                      \<lparr> item_state_id = i, item_state_item = None,
                        item_state_state = DoesNotExists \<rparr>)"
proof -
  from assms
  have st: "itemStates = map (item_entry (fetched (viewContentItem_byItemId env) itemIds)) itemIds"
    by (simp add: getItemStatesAsync_Inr)
  show "map item_state_id itemStates = itemIds"
    unfolding st by (simp add: o_def item_entry_id)
  show "\<exists>st. getItemStateInSourceEnvironment itemStates i = Inr st \<and> item_state_id st = i
             \<and> (item_state_state st = Exists) = (item_state_item st \<noteq> None)"
    if "i \<in> set itemIds"
    using that unfolding st
    by (simp add: getItemStateInSourceEnvironment_def find_item_entry item_entry_def
        split: option.splits)
  show "getItemStateInSourceEnvironment itemStates i =
          Inr (case viewContentItem_byItemId env i of
                 Inr item \<Rightarrow>
                   \<lparr> item_state_id = i, item_state_item = Some item, item_state_state = Exists \<rparr>
               | Inl e \<Rightarrow>
                   \<lparr> item_state_id = i, item_state_item = None,
                     item_state_state = DoesNotExists \<rparr>)"
    if c: "\<forall>j x. viewContentItem_byItemId env j = Inr x \<longrightarrow> item_id x = j"
      and i: "i \<in> set itemIds"
    using i unfolding st
    by (simp add: getItemStateInSourceEnvironment_def find_item_entry item_entry_def
        find_fetched [where key = item_id, OF c] split: sum.splits)
qed

lemma asset_states_cover:
  assumes "getAssetStatesAsync env assetIds = Inr assetStates"
  shows "map asset_state_id assetStates = assetIds"
    and "i \<in> set assetIds \<Longrightarrow>
           \<exists>st. getAssetStateInSourceEnvironment assetStates i = Inr st \<and> asset_state_id st = i
                \<and> (asset_state_state st = Exists) = (asset_state_asset st \<noteq> None)"
    and "(\<forall>j x. viewAsset_byAssetId env j = Inr x \<longrightarrow> asset_id x = j) \<Longrightarrow>
         i \<in> set assetIds \<Longrightarrow>
           getAssetStateInSourceEnvironment assetStates i =
             Inr (case viewAsset_byAssetId env i of
                    Inr asset \<Rightarrow>
                      \<lparr> asset_state_id = i, asset_state_asset = Some asset,
                        asset_state_state = Exists \<rparr>
                  | Inl e \<Rightarrow>
                      \<lparr> asset_state_id = i, asset_state_asset = None,
                        asset_state_state = DoesNotExists \<rparr>)"
proof -
  from assms
  have st: "assetStates = map (asset_entry (fetched (viewAsset_byAssetId env) assetIds)) assetIds"
    by (simp add: getAssetStatesAsync_Inr)
  show "map asset_state_id assetStates = assetIds"
    unfolding st by (simp add: o_def asset_entry_id)
  show "\<exists>st. getAssetStateInSourceEnvironment assetStates i = Inr st \<and> asset_state_id st = i
             \<and> (asset_state_state st = Exists) = (asset_state_asset st \<noteq> None)"
    if "i \<in> set assetIds"
    using that unfolding st
    by (simp add: getAssetStateInSourceEnvironment_def find_asset_entry asset_entry_def
        split: option.splits)
  show "getAssetStateInSourceEnvironment assetStates i =
          Inr (case viewAsset_byAssetId env i of
                 Inr asset \<Rightarrow>
                   \<lparr> asset_state_id = i, asset_state_asset = Some asset,
                     asset_state_state = Exists \<rparr>
               | Inl e \<Rightarrow>
                   \<lparr> asset_state_id = i, asset_state_asset = None,
                     asset_state_state = DoesNotExists \<rparr>)"
    if c: "\<forall>j x. viewAsset_byAssetId env j = Inr x \<longrightarrow> asset_id x = j"
      and i: "i \<in> set assetIds"
    using i unfolding st
    by (simp add: getAssetStateInSourceEnvironment_def find_asset_entry asset_entry_def
        find_fetched [where key = asset_id, OF c] split: sum.splits)
qed

text \<open>
  C10. When \<open>getItemStatesAsync\<close> returns (it does whenever every failing view fails with
  a 404 error), the returned list has one entry per requested id, in request order,
  marked \<open>exists\<close> exactly when it carries an item; so the lookup
  \<open>getItemStateInSourceEnvironment\<close> finds an entry for every requested id and does not
  reach its error. When the environment answers a view by id with the item of that id,
  the entry of an id carries the item the environment returned and \<open>exists\<close>, or nothing
  and \<open>doesNotExists\<close> when the view failed. The same holds for \<open>getAssetStatesAsync\<close>
  and \<open>getAssetStateInSourceEnvironment\<close>.
\<close>

theorem states_cover_requested_ids:
  "(getItemStatesAsync env itemIds = Inr itemStates \<longrightarrow>
      map item_state_id itemStates = itemIds
      \<and> (\<forall>i \<in> set itemIds.
            \<exists>st. getItemStateInSourceEnvironment itemStates i = Inr st \<and> item_state_id st = i
                 \<and> (item_state_state st = Exists) = (item_state_item st \<noteq> None))
      \<and> ((\<forall>j x. viewContentItem_byItemId env j = Inr x \<longrightarrow> item_id x = j) \<longrightarrow>
           (\<forall>i \<in> set itemIds.
              getItemStateInSourceEnvironment itemStates i =
                Inr (case viewContentItem_byItemId env i of
                       Inr item \<Rightarrow>
                         \<lparr> item_state_id = i, item_state_item = Some item,
                           item_state_state = Exists \<rparr>
                     | Inl e \<Rightarrow>
                         \<lparr> item_state_id = i, item_state_item = None,
                           item_state_state = DoesNotExists \<rparr>))))
   \<and> ((\<forall>i \<in> set itemIds. \<forall>e. viewContentItem_byItemId env i = Inl e \<longrightarrow> is404Error e) \<longrightarrow>
        (\<exists>states. getItemStatesAsync env itemIds = Inr states))
   \<and> (getAssetStatesAsync env assetIds = Inr assetStates \<longrightarrow>
      map asset_state_id assetStates = assetIds
      \<and> (\<forall>i \<in> set assetIds.
            \<exists>st. getAssetStateInSourceEnvironment assetStates i = Inr st \<and> asset_state_id st = i
                 \<and> (asset_state_state st = Exists) = (asset_state_asset st \<noteq> None))
      \<and> ((\<forall>j x. viewAsset_byAssetId env j = Inr x \<longrightarrow> asset_id x = j) \<longrightarrow>
           (\<forall>i \<in> set assetIds.
              getAssetStateInSourceEnvironment assetStates i =
                Inr (case viewAsset_byAssetId env i of
                       Inr asset \<Rightarrow>
                         \<lparr> asset_state_id = i, asset_state_asset = Some asset,
                           asset_state_state = Exists \<rparr>
                     | Inl e \<Rightarrow>
                         \<lparr> asset_state_id = i, asset_state_asset = None,
                           asset_state_state = DoesNotExists \<rparr>))))
   \<and> ((\<forall>i \<in> set assetIds. \<forall>e. viewAsset_byAssetId env i = Inl e \<longrightarrow> is404Error e) \<longrightarrow>
        (\<exists>states. getAssetStatesAsync env assetIds = Inr states))"
proof (intro conjI impI ballI)
  assume "getItemStatesAsync env itemIds = Inr itemStates"
  then show "map item_state_id itemStates = itemIds"
    by (rule item_states_cover(1))
next
  fix i
  assume "getItemStatesAsync env itemIds = Inr itemStates" and "i \<in> set itemIds"
  then show "\<exists>st. getItemStateInSourceEnvironment itemStates i = Inr st \<and> item_state_id st = i
                 \<and> (item_state_state st = Exists) = (item_state_item st \<noteq> None)"
    by (rule item_states_cover(2))
next
  fix i
  assume "getItemStatesAsync env itemIds = Inr itemStates"
    and "\<forall>j x. viewContentItem_byItemId env j = Inr x \<longrightarrow> item_id x = j"
    and "i \<in> set itemIds"
  then show "getItemStateInSourceEnvironment itemStates i =
               Inr (case viewContentItem_byItemId env i of
                      Inr item \<Rightarrow>
                        \<lparr> item_state_id = i, item_state_item = Some item,
                          item_state_state = Exists \<rparr>
                    | Inl e \<Rightarrow>
                        \<lparr> item_state_id = i, item_state_item = None,
                          item_state_state = DoesNotExists \<rparr>)"
    by (rule item_states_cover(3))
next
  assume "\<forall>i \<in> set itemIds. \<forall>e. viewContentItem_byItemId env i = Inl e \<longrightarrow> is404Error e"
  then show "\<exists>states. getItemStatesAsync env itemIds = Inr states"
    by (simp add: getItemStatesAsync_Inr)
next
  assume "getAssetStatesAsync env assetIds = Inr assetStates"
  then show "map asset_state_id assetStates = assetIds"
    by (rule asset_states_cover(1))
next
  fix i
  assume "getAssetStatesAsync env assetIds = Inr assetStates" and "i \<in> set assetIds"
  then show "\<exists>st. getAssetStateInSourceEnvironment assetStates i = Inr st \<and> asset_state_id st = i
                 \<and> (asset_state_state st = Exists) = (asset_state_asset st \<noteq> None)"
    by (rule asset_states_cover(2))
next
  fix i
  assume "getAssetStatesAsync env assetIds = Inr assetStates"
    and "\<forall>j x. viewAsset_byAssetId env j = Inr x \<longrightarrow> asset_id x = j"
    and "i \<in> set assetIds"
  then show "getAssetStateInSourceEnvironment assetStates i =
               Inr (case viewAsset_byAssetId env i of
                      Inr asset \<Rightarrow>
                        \<lparr> asset_state_id = i, asset_state_asset = Some asset,
                          asset_state_state = Exists \<rparr>
                    | Inl e \<Rightarrow>
                        \<lparr> asset_state_id = i, asset_state_asset = None,
                          asset_state_state = DoesNotExists \<rparr>)"
    by (rule asset_states_cover(3))
next
  assume "\<forall>i \<in> set assetIds. \<forall>e. viewAsset_byAssetId env i = Inl e \<longrightarrow> is404Error e"
  then show "\<exists>states. getAssetStatesAsync env assetIds = Inr states"
    by (simp add: getAssetStatesAsync_Inr)
qed

theorem states_cover_requested_ids_witness:
  "getItemStatesAsync source_with_about_us [''id-of-about_us'', ''id-of-gone'']
     = Inr [ \<lparr> item_state_id = ''id-of-about_us'', item_state_item = Some about_us_in_target,
               item_state_state = Exists \<rparr>,
             \<lparr> item_state_id = ''id-of-gone'', item_state_item = None,
               item_state_state = DoesNotExists \<rparr> ]
   \<and> getItemStateInSourceEnvironment
        [ \<lparr> item_state_id = ''id-of-about_us'', item_state_item = Some about_us_in_target,
            item_state_state = Exists \<rparr>,
          \<lparr> item_state_id = ''id-of-gone'', item_state_item = None,
            item_state_state = DoesNotExists \<rparr> ] ''id-of-gone''
     = Inr \<lparr> item_state_id = ''id-of-gone'', item_state_item = None,
             item_state_state = DoesNotExists \<rparr>
   \<and> getAssetStatesAsync source_with_about_us [''id-of-gone'', ''id-of-logo'']
     = Inr [ \<lparr> asset_state_id = ''id-of-gone'', asset_state_asset = None,
               asset_state_state = DoesNotExists \<rparr>,
             \<lparr> asset_state_id = ''id-of-logo'', asset_state_asset = Some logo_in_target,
               asset_state_state = Exists \<rparr> ]
   \<and> getAssetStateInSourceEnvironment
        [ \<lparr> asset_state_id = ''id-of-gone'', asset_state_asset = None,
            asset_state_state = DoesNotExists \<rparr>,
          \<lparr> asset_state_id = ''id-of-logo'', asset_state_asset = Some logo_in_target,
            asset_state_state = Exists \<rparr> ] ''id-of-logo''
     = Inr \<lparr> asset_state_id = ''id-of-logo'', asset_state_asset = Some logo_in_target,
             asset_state_state = Exists \<rparr>"
proof -
  let ?itemStates =
    "[ \<lparr> item_state_id = ''id-of-about_us'', item_state_item = Some about_us_in_target,
         item_state_state = Exists \<rparr>,
       \<lparr> item_state_id = ''id-of-gone'', item_state_item = None,
         item_state_state = DoesNotExists \<rparr> ]"
  let ?assetStates =
    "[ \<lparr> asset_state_id = ''id-of-gone'', asset_state_asset = None,
         asset_state_state = DoesNotExists \<rparr>,
       \<lparr> asset_state_id = ''id-of-logo'', asset_state_asset = Some logo_in_target,
         asset_state_state = Exists \<rparr> ]"
  have items: "getItemStatesAsync source_with_about_us [''id-of-about_us'', ''id-of-gone'']
                 = Inr ?itemStates"
    by (simp add: getItemStatesAsync_def getContentItemsByIdsAsync_def source_with_about_us_def
        is404Error_def about_us_in_target_def)
  have assets: "getAssetStatesAsync source_with_about_us [''id-of-gone'', ''id-of-logo'']
                  = Inr ?assetStates"
    by (simp add: getAssetStatesAsync_def getAssetsByIdsAsync_def source_with_about_us_def
        is404Error_def logo_in_target_def)
  have item_ids: "\<forall>j x. viewContentItem_byItemId source_with_about_us j = Inr x \<longrightarrow> item_id x = j"
    by (simp add: source_with_about_us_def about_us_in_target_def)
  have asset_ids: "\<forall>j x. viewAsset_byAssetId source_with_about_us j = Inr x \<longrightarrow> asset_id x = j"
    by (simp add: source_with_about_us_def logo_in_target_def)
  show ?thesis
    using states_cover_requested_ids
            [of source_with_about_us "[''id-of-about_us'', ''id-of-gone'']" ?itemStates
               "[''id-of-gone'', ''id-of-logo'']" ?assetStates]
          items assets item_ids asset_ids
    by (simp add: source_with_about_us_def)
qed


subsection \<open>Component codename to identifier\<close>

lemma replaceAll_char_length: "length (replaceAll_char a b s) = length s"
  by (simp add: replaceAll_char_def)

lemma replaceAll_char_removes: "a \<noteq> b \<Longrightarrow> a \<notin> set (replaceAll_char a b s)"
  by (auto simp: replaceAll_char_def)

lemma replaceAll_char_nth:
  "i < length s \<Longrightarrow> replaceAll_char a b s ! i = (if s ! i = a then b else s ! i)"
  by (simp add: replaceAll_char_def)

lemma replaceAll_char_back:
  "b \<notin> set s \<Longrightarrow> replaceAll_char b a (replaceAll_char a b s) = s"
  by (induction s) (auto simp: replaceAll_char_def)

text \<open>
  What the method returns rests on what the two packages do. With a generator that
  reads the state of the process (a random or time-based UUID), the same codename gets
  different identifiers in different runs.
\<close>

lemma convertComponentCodenameToId_with_state_based_generator:
  "fst (convertComponentCodenameToId (\<lambda>s p. (False, p)) (\<lambda>s p. (p, p)) ''hero'' ''run-1'')
   \<noteq> fst (convertComponentCodenameToId (\<lambda>s p. (False, p)) (\<lambda>s p. (p, p)) ''hero'' ''run-2'')"
  by (simp add: convertComponentCodenameToId_def)

text \<open>
  A valid UUID written with underscores for its hyphens is given back as that UUID.
\<close>

lemma convertComponentCodenameToId_underscored_uuid:
  assumes "\<forall>s p. validate s p = (is_uuid s, p)"
    and "is_uuid u" and "CHR ''_'' \<notin> set u"
  shows "convertComponentCodenameToId validate uuidByString
           (replaceAll_char CHR ''-'' CHR ''_'' u) p = (u, p)"
  using assms by (simp add: convertComponentCodenameToId_def replaceAll_char_back)

text \<open>
  C7. Let \<open>validate\<close> be a test \<open>is_uuid\<close> of the string it is given and \<open>uuidByString\<close>
  a hash \<open>hash_uuid\<close> of the string it is given, neither reading nor changing the state
  of the process. Write \<open>n\<close> for the codename with every underscore replaced by a
  hyphen (same length, no underscore left, every other character kept in place). Then
  in every state of the process \<open>convertComponentCodenameToId\<close> leaves the state as it
  is and returns \<open>n\<close> itself when \<open>n\<close> is a valid UUID, and the hash of the original
  codename otherwise. So the identifier is a function of the codename alone: two
  applications to the same codename, in the same or in different states of a process
  or of two processes, return the same identifier.
\<close>

theorem convertComponentCodenameToId_spec:
  assumes "\<forall>s p. validate s p = (is_uuid s, p)"
    and "\<forall>s p. uuidByString s p = (hash_uuid s, p)"
  shows "length (replaceAll_char CHR ''_'' CHR ''-'' codename) = length codename
   \<and> CHR ''_'' \<notin> set (replaceAll_char CHR ''_'' CHR ''-'' codename)
   \<and> (\<forall>i < length codename.
         replaceAll_char CHR ''_'' CHR ''-'' codename ! i
         = (if codename ! i = CHR ''_'' then CHR ''-'' else codename ! i))
   \<and> (\<forall>p. convertComponentCodenameToId validate uuidByString codename p
         = (if is_uuid (replaceAll_char CHR ''_'' CHR ''-'' codename)
            then replaceAll_char CHR ''_'' CHR ''-'' codename
            else hash_uuid codename, p))
   \<and> (\<forall>p p'. fst (convertComponentCodenameToId validate uuidByString codename p)
              = fst (convertComponentCodenameToId validate uuidByString codename p'))"
proof -
  have run: "convertComponentCodenameToId validate uuidByString codename p
             = (if is_uuid (replaceAll_char CHR ''_'' CHR ''-'' codename)
                then replaceAll_char CHR ''_'' CHR ''-'' codename
                else hash_uuid codename, p)" for p
    using assms by (simp add: convertComponentCodenameToId_def)
  have same: "fst (convertComponentCodenameToId validate uuidByString codename p)
              = fst (convertComponentCodenameToId validate uuidByString codename p')" for p p'
    by (simp add: run)
  show ?thesis
    using run same
    by (simp add: replaceAll_char_length replaceAll_char_removes replaceAll_char_nth)
qed

theorem convertComponentCodenameToId_spec_witness:
  "convertComponentCodenameToId (\<lambda>s p. (length s = 3, p)) (\<lambda>s p. (''hash-of-'' @ s, p))
     ''a_b'' (7::nat) = (''a-b'', 7)
   \<and> convertComponentCodenameToId (\<lambda>s p. (length s = 3, p)) (\<lambda>s p. (''hash-of-'' @ s, p))
     ''hero_image'' (7::nat) = (''hash-of-hero_image'', 7)
   \<and> fst (convertComponentCodenameToId (\<lambda>s p. (length s = 3, p))
          (\<lambda>s p. (''hash-of-'' @ s, p)) ''hero_image'' (7::nat))
     = fst (convertComponentCodenameToId (\<lambda>s p. (length s = 3, p))
          (\<lambda>s p. (''hash-of-'' @ s, p)) ''hero_image'' (2026::nat))"
proof -
  have v: "\<forall>s (p::nat). (\<lambda>s p. (length s = 3, p)) s p = ((\<lambda>s. length s = 3) s, p)"
    by simp
  have u: "\<forall>s (p::nat). (\<lambda>s p. (''hash-of-'' @ s, p)) s p = ((\<lambda>s. ''hash-of-'' @ s) s, p)"
    by simp
  show ?thesis
    using convertComponentCodenameToId_spec [OF v u, of "''a_b''"]
      convertComponentCodenameToId_spec [OF v u, of "''hero_image''"]
    by (simp add: replaceAll_char_def)
qed


subsection \<open>Import transforms of text and custom elements\<close>

text \<open>
  C9 as stated fails: the custom transform turns an absent value into the empty string,
  not into null, and the text transform keeps an empty string as it is.
\<close>

theorem importTransforms_null_counterexample:
  "element_value (importTransforms_custom ''note'' None) \<noteq> None
   \<and> element_value (importTransforms_text ''title'' (Some (StringValue ''''))) \<noteq> None"
  by (simp add: importTransforms_custom_def importTransforms_text_def nullish_def
      optional_toString_def)

text \<open>
  C9, amended. Both transforms keep the element codename and produce the string form of
  a value that is present; a string value is produced unchanged, the empty string
  included. For an absent value the text transform produces null and the custom
  transform produces the empty string.
\<close>

theorem importTransforms_text_custom_spec:
  "importTransforms_text c (Some v) = \<lparr> element_codename = c, element_value = Some (toString v) \<rparr>
   \<and> importTransforms_custom c (Some v) = \<lparr> element_codename = c, element_value = Some (toString v) \<rparr>
   \<and> toString (StringValue s) = s
   \<and> importTransforms_text c None = \<lparr> element_codename = c, element_value = None \<rparr>
   \<and> importTransforms_custom c None = \<lparr> element_codename = c, element_value = Some '''' \<rparr>"
  by (simp add: importTransforms_custom_def importTransforms_text_def nullish_def
      optional_toString_def)

end
